theory Spec2Isabelle
  imports Main "HOL-Library.AList" "HOL-Library.Sublist"
begin

text \<open>
  A shallow embedding of the orchestration engine of the Enterprise Workflow
  Choreographer: the step dispatcher and the responder selector of
  \<open>workflows/choreographer.py\<close>, the workflow builder of \<open>agents/orchestrator.py\<close> and
  the fixed seven-stage playbook of \<open>workflows/incident_workflow.py\<close>, over the data model
  of \<open>models.py\<close>.  Mutation is explicit state passing, an exception is the left summand
  of a sum type, a loop is a recursive function.  The collaborators, the decision provider
  and the library functions the code relies on are parameters, so that the properties hold
  for every behaviour of theirs.  Logging is left out.
\<close>

section \<open>Python values\<close>

text \<open>
  The collaborators return dictionaries of type \<open>Dict[str, Any]\<close>.  A value of type
  \<open>Any\<close> is a \<open>pyval\<close>; a dictionary is an association list (Python dictionaries keep
  their insertion order).  Floating point numbers do not occur in the modelled code paths
  and are not represented.
\<close>

datatype pyval =
    PNone
  | PBool bool
  | PInt int
  | PStr string
  | PList "pyval list"
  | PDict "(string \<times> pyval) list"

type_synonym pydict = "(string \<times> pyval) list"

text \<open>Truth value testing, as \<open>if x:\<close> and \<open>x or y\<close> do it.\<close>

fun truthy :: "pyval \<Rightarrow> bool" where
  "truthy PNone = False"
| "truthy (PBool b) = b"
| "truthy (PInt i) = (i \<noteq> 0)"
| "truthy (PStr s) = (s \<noteq> [])"
| "truthy (PList xs) = (xs \<noteq> [])"
| "truthy (PDict d) = (d \<noteq> [])"

text \<open>\<open>d.get(k)\<close>, \<open>d.get(k, default)\<close> and \<open>d[k] = v\<close>.\<close>

definition dict_get :: "pydict \<Rightarrow> string \<Rightarrow> pyval" where
  "dict_get d k = (case map_of d k of None \<Rightarrow> PNone | Some v \<Rightarrow> v)"

definition dict_get_or :: "pydict \<Rightarrow> string \<Rightarrow> pyval \<Rightarrow> pyval" where
  "dict_get_or d k dflt = (case map_of d k of None \<Rightarrow> dflt | Some v \<Rightarrow> v)"

definition dict_set :: "pydict \<Rightarrow> string \<Rightarrow> pyval \<Rightarrow> pydict" where
  "dict_set d k v = AList.update k v d"

text \<open>\<open>a or b\<close> on values.\<close>

definition py_or :: "pyval \<Rightarrow> pyval \<Rightarrow> pyval" where
  "py_or a b = (if truthy a then a else b)"

section \<open>Data model (models.py)\<close>

datatype IncidentSeverity = CRITICAL | HIGH | MEDIUM | LOW

datatype IncidentStatus = DETECTED | TRIAGING | IN_PROGRESS | MITIGATED | RESOLVED | CLOSED

datatype IncidentCategory =
  INFRASTRUCTURE | APPLICATION | DATABASE | NETWORK | SECURITY | PERFORMANCE | INTEGRATION | UNKNOWN

fun severity_value :: "IncidentSeverity \<Rightarrow> string" where
  "severity_value CRITICAL = ''critical''"
| "severity_value HIGH = ''high''"
| "severity_value MEDIUM = ''medium''"
| "severity_value LOW = ''low''"

fun status_value :: "IncidentStatus \<Rightarrow> string" where
  "status_value DETECTED = ''detected''"
| "status_value TRIAGING = ''triaging''"
| "status_value IN_PROGRESS = ''in_progress''"
| "status_value MITIGATED = ''mitigated''"
| "status_value RESOLVED = ''resolved''"
| "status_value CLOSED = ''closed''"

fun category_value :: "IncidentCategory \<Rightarrow> string" where
  "category_value INFRASTRUCTURE = ''infrastructure''"
| "category_value APPLICATION = ''application''"
| "category_value DATABASE = ''database''"
| "category_value NETWORK = ''network''"
| "category_value SECURITY = ''security''"
| "category_value PERFORMANCE = ''performance''"
| "category_value INTEGRATION = ''integration''"
| "category_value UNKNOWN = ''unknown''"

text \<open>
  The external reference fields and the hypothesis are declared \<open>Optional[str]\<close>, but the
  code assigns them the result of \<open>dict.get\<close> without validation (the models do not
  validate on assignment), so they hold a \<open>pyval\<close>; \<open>PNone\<close> is the unset field.
  Points in time are natural numbers.
\<close>

record Incident =
  inc_id :: string
  title :: string
  description :: string
  severity :: IncidentSeverity
  inc_status :: IncidentStatus
  category :: IncidentCategory
  source_system :: string
  source_alert_id :: "string option"
  affected_services :: "string list"
  affected_components :: "string list"
  servicenow_ticket_id :: pyval
  github_issue_url :: "string option"
  slack_channel_id :: pyval
  confluence_page_id :: pyval
  assigned_team :: "string option"
  assigned_responders :: "string list"
  root_cause_hypothesis :: pyval
  resolution_steps :: "string list"
  detected_at :: nat
  acknowledged_at :: "nat option"
  mitigated_at :: "nat option"
  resolved_at :: "nat option"
  tags :: "string list"
  metadata :: pydict

record WorkflowStep =
  step_id :: string
  name :: string
  action :: string
  target_tool :: string
  parameters :: pydict
  status :: string
  result :: "pydict option"
  error :: "string option"
  started_at :: "nat option"
  completed_at :: "nat option"

record Workflow =
  wf_id :: string
  wf_incident_id :: string
  wf_name :: string
  wf_description :: string
  steps :: "WorkflowStep list"
  current_step_index :: nat
  wf_status :: string
  created_at :: nat
  wf_started_at :: "nat option"
  wf_completed_at :: "nat option"

record TeamMember =
  tm_id :: string
  tm_name :: string
  email :: string
  slack_user_id :: "string option"
  github_username :: "string option"
  teams :: "string list"
  skills :: "string list"
  on_call :: bool

record ActionResult =
  success :: bool
  ar_action :: string
  tool :: string
  message :: string
  data :: "pydict option"
  ar_error :: "string option"
  timestamp :: nat

record FeatureFlags =
  auto_ticketing :: bool
  slack_notifications :: bool
  confluence_docs :: bool
  github_analysis :: bool

record AppConfig =
  features :: FeatureFlags
  github_org :: string

section \<open>Collaborators\<close>

text \<open>
  Every call of a collaborator (ticketing, chat, code host, documentation, issue tracker,
  decision service) is recorded with its arguments as they are at the time of the call.
\<close>

datatype call =
    ServiceNowCreateIncident Incident
  | ServiceNowAddWorkNote pyval string
  | SlackCreateIncidentChannel Incident
  | SlackNotifyTeam pyval string Incident
  | SlackAssembleResponseTeam Incident "TeamMember list" pyval
  | SlackPostIncidentUpdate pyval Incident string string
  | GithubAnalyzeRecentCommits string int "string list"
  | GithubGetRecentDeployments string string
  | GithubGetWorkflowRuns string string
  | ConfluenceCreatePostmortem Incident
  | JiraCreateIncidentIssue Incident
  | JiraAssignIssue pyval pyval
  | AiGenerateRootCauseHypothesis Incident pyval pyval pyval

text \<open>
  The world outside the process: the calls made so far and the clock that
  \<open>datetime.utcnow()\<close> reads.  The environment \<open>env\<close> holds what the repository does not
  define: how a collaborator answers a call after a given history (it returns a
  dictionary, or raises an exception, which is \<open>Inl\<close> of the exception's text \<open>str(e)\<close>),
  how long the call takes, and the library functions \<open>str\<close>, \<open>isoformat\<close> and the
  validation of an \<open>Optional[str]\<close> field by the model class.  The exceptions are those
  of class \<open>Exception\<close>, which is what the \<open>except\<close> clauses of the code catch; the
  cancellation of a task is not represented.
\<close>

record world =
  calls :: "call list"
  clock :: nat

record env =
  respond :: "call list \<Rightarrow> call \<Rightarrow> string + pydict"
  respond_text :: "call list \<Rightarrow> call \<Rightarrow> string + pyval"
  delay :: "call list \<Rightarrow> call \<Rightarrow> nat"
  py_str :: "pyval \<Rightarrow> string"
  isoformat :: "nat \<Rightarrow> string"
  validate_opt_str :: "pyval \<Rightarrow> string + string option"

definition invoke :: "env \<Rightarrow> call \<Rightarrow> world \<Rightarrow> (string + pydict) \<times> world" where
  "invoke E cl w =
     (respond E (calls w) cl,
      w\<lparr>calls := calls w @ [cl], clock := clock w + delay E (calls w) cl\<rparr>)"

definition invoke_text :: "env \<Rightarrow> call \<Rightarrow> world \<Rightarrow> (string + pyval) \<times> world" where
  "invoke_text E cl w =
     (respond_text E (calls w) cl,
      w\<lparr>calls := calls w @ [cl], clock := clock w + delay E (calls w) cl\<rparr>)"

section \<open>The step dispatcher (workflows/choreographer.py)\<close>

text \<open>
  The per-run context: the incident, the roster and the results of the actions run so far,
  keyed by action identifier.
\<close>

record Context =
  incident :: Incident
  team_members :: "TeamMember list"
  results :: "string \<rightharpoonup> ActionResult"

text \<open>
  A handler gets the step and the context.  It returns an \<open>ActionResult\<close> or raises;
  either way the changes it made to the incident and the calls it made remain.
\<close>

type_synonym handler =
  "WorkflowStep \<Rightarrow> Context \<Rightarrow> world \<Rightarrow> (string + ActionResult) \<times> Context \<times> world"

definition handle_create_ticket :: "env \<Rightarrow> AppConfig \<Rightarrow> handler" where
  "handle_create_ticket E cfg s c w =
     (if \<not> auto_ticketing (features cfg) then
        (Inr \<lparr>success = True, ar_action = action s, tool = ''servicenow'',
              message = ''Auto-ticketing disabled'',
              data = Some [(''skipped'', PBool True)], ar_error = None,
              timestamp = clock w\<rparr>, c, w)
      else
        case invoke E (ServiceNowCreateIncident (incident c)) w of
          (Inl e, w1) \<Rightarrow> (Inl e, c, w1)
        | (Inr res, w1) \<Rightarrow>
            if truthy (dict_get res ''success'') then
              (Inr \<lparr>success = True, ar_action = action s, tool = ''servicenow'',
                    message = ''Created ticket '' @ py_str E (dict_get res ''number''),
                    data = Some res, ar_error = None, timestamp = clock w1\<rparr>,
               c\<lparr>incident := (incident c)\<lparr>servicenow_ticket_id := dict_get res ''number''\<rparr>\<rparr>,
               w1)
            else
              (case validate_opt_str E (dict_get res ''error'') of
                 Inl e \<Rightarrow> (Inl e, c, w1)
               | Inr err \<Rightarrow>
                   (Inr \<lparr>success = False, ar_action = action s, tool = ''servicenow'',
                         message = ''Failed to create ticket'',
                         data = None, ar_error = err, timestamp = clock w1\<rparr>, c, w1)))"

text \<open>
  The table of handlers built by the constructor.  The ten handlers other than
  \<open>_handle_create_ticket\<close> are taken as they come.
\<close>

record other_handlers =
  handle_update_ticket :: handler
  handle_create_channel :: handler
  handle_notify_team :: handler
  handle_assemble_team :: handler
  handle_analyze_commits :: handler
  handle_gather_logs :: handler
  handle_create_postmortem :: handler
  handle_generate_hypothesis :: handler
  handle_search_knowledge :: handler
  handle_post_update :: handler

definition action_handlers :: "env \<Rightarrow> AppConfig \<Rightarrow> other_handlers \<Rightarrow> (string \<rightharpoonup> handler)" where
  "action_handlers E cfg H = map_of
     [(''create_ticket'', handle_create_ticket E cfg),
      (''update_ticket'', handle_update_ticket H),
      (''create_channel'', handle_create_channel H),
      (''notify_team'', handle_notify_team H),
      (''assemble_team'', handle_assemble_team H),
      (''analyze_commits'', handle_analyze_commits H),
      (''gather_logs'', handle_gather_logs H),
      (''create_postmortem'', handle_create_postmortem H),
      (''generate_hypothesis'', handle_generate_hypothesis H),
      (''search_knowledge'', handle_search_knowledge H),
      (''post_update'', handle_post_update H)]"

text \<open>
  \<open>_execute_step\<close>: the step is marked running, the handler is looked up; a missing
  handler gives a failed result at once, and an exception of the handler is turned into a
  failed result.  The result type keeps the place of an exception (\<open>Inl\<close>) that the caller
  is prepared for.
\<close>

definition execute_step ::
  "(string \<rightharpoonup> handler) \<Rightarrow> WorkflowStep \<Rightarrow> Context \<Rightarrow> world \<Rightarrow>
     (string + ActionResult) \<times> WorkflowStep \<times> Context \<times> world" where
  "execute_step hs s c w =
     (let s1 = s\<lparr>status := ''running'', started_at := Some (clock w)\<rparr> in
      case hs (action s1) of
        None \<Rightarrow>
          (Inr \<lparr>success = False, ar_action = action s1, tool = target_tool s1,
                message = ''Unknown action: '' @ action s1,
                data = None, ar_error = Some ''No handler registered for action'',
                timestamp = clock w\<rparr>, s1, c, w)
      | Some h \<Rightarrow>
          (case h s1 c w of
             (Inr r, c1, w1) \<Rightarrow> (Inr r, s1, c1, w1)
           | (Inl e, c1, w1) \<Rightarrow>
               (Inr \<lparr>success = False, ar_action = action s1, tool = target_tool s1,
                     message = ''Action failed: '' @ e,
                     data = None, ar_error = Some e, timestamp = clock w1\<rparr>, s1, c1, w1)))"

text \<open>\<open>_update_incident_from_result\<close>; \<open>result.data or {}\<close> is the empty dictionary
  when there is no payload.\<close>

definition update_incident_from_result :: "Incident \<Rightarrow> WorkflowStep \<Rightarrow> ActionResult \<Rightarrow> Incident" where
  "update_incident_from_result i s r =
     (if \<not> success r then i
      else
        let d = (case data r of None \<Rightarrow> [] | Some d \<Rightarrow> d) in
        if action s = ''create_ticket'' then i\<lparr>servicenow_ticket_id := dict_get d ''number''\<rparr>
        else if action s = ''create_channel'' then i\<lparr>slack_channel_id := dict_get d ''channel_id''\<rparr>
        else if action s = ''create_postmortem'' then i\<lparr>confluence_page_id := dict_get d ''page_id''\<rparr>
        else if action s = ''generate_hypothesis'' then i\<lparr>root_cause_hypothesis := dict_get d ''hypothesis''\<rparr>
        else i)"

definition is_critical_step :: "WorkflowStep \<Rightarrow> bool" where
  "is_critical_step s = (action s \<in> set [''create_ticket''])"

text \<open>
  One round of the loop of \<open>_execute_workflow\<close>: the \<open>try\<close> block, and the \<open>except\<close>
  block for an exception that leaves \<open>_execute_step\<close>.
\<close>

definition run_step ::
  "(string \<rightharpoonup> handler) \<Rightarrow> WorkflowStep \<Rightarrow> Context \<Rightarrow> world \<Rightarrow> WorkflowStep \<times> Context \<times> world" where
  "run_step hs s c w =
     (case execute_step hs s c w of
        (Inr r, s1, c1, w1) \<Rightarrow>
          (let s2 = s1\<lparr>status := (if success r then ''completed'' else ''failed''),
                      result := data r,
                      completed_at := Some (clock w1)\<rparr>;
               c2 = c1\<lparr>results := (results c1)(action s2 \<mapsto> r)\<rparr>;
               c3 = c2\<lparr>incident := update_incident_from_result (incident c2) s2 r\<rparr>
           in (s2, c3, w1))
      | (Inl e, s1, c1, w1) \<Rightarrow>
          (s1\<lparr>status := ''failed'', error := Some e, completed_at := Some (clock w1)\<rparr>, c1, w1))"

fun run_steps ::
  "(string \<rightharpoonup> handler) \<Rightarrow> WorkflowStep list \<Rightarrow> Context \<Rightarrow> world \<Rightarrow>
     WorkflowStep list \<times> Context \<times> world" where
  "run_steps hs [] c w = ([], c, w)"
| "run_steps hs (s # ss) c w =
     (case run_step hs s c w of
        (s', c1, w1) \<Rightarrow>
          (case run_steps hs ss c1 w1 of (ss', c2, w2) \<Rightarrow> (s' # ss', c2, w2)))"

text \<open>\<open>_execute_workflow\<close>; the roster \<open>team_members or []\<close> is empty when none is given.\<close>

definition execute_workflow ::
  "(string \<rightharpoonup> handler) \<Rightarrow> Workflow \<Rightarrow> Incident \<Rightarrow> TeamMember list option \<Rightarrow> world \<Rightarrow>
     Workflow \<times> Incident \<times> world" where
  "execute_workflow hs wfl i tm w =
     (let wfl1 = wfl\<lparr>wf_status := ''running'', wf_started_at := Some (clock w)\<rparr>;
          c = \<lparr>incident = i, team_members = (case tm of None \<Rightarrow> [] | Some ms \<Rightarrow> ms),
               results = Map.empty\<rparr>
      in case run_steps hs (steps wfl1) c w of
           (ss, c1, w1) \<Rightarrow>
             (wfl1\<lparr>steps := ss,
                  current_step_index :=
                    (if steps wfl1 = [] then current_step_index wfl1 else length (steps wfl1) - 1),
                  wf_status := ''completed'',
                  wf_completed_at := Some (clock w1)\<rparr>,
              incident c1, w1))"

section \<open>The responder selector (workflows/choreographer.py)\<close>

text \<open>
  \<open>_select_relevant_team_members\<close>.  The lexicon maps a category to its skill keywords;
  a category without an entry has none.  The two loops that append to the selection are
  one function, applied to the skilled members and then to the whole roster.  Membership
  \<open>member not in selected\<close> compares the members field by field.
\<close>

definition category_skills :: "string \<Rightarrow> string list" where
  "category_skills k =
     (case map_of
        [(''database'', [''postgresql'', ''mysql'', ''mongodb'', ''dba'', ''sql'']),
         (''infrastructure'', [''kubernetes'', ''aws'', ''docker'', ''sre'', ''devops'']),
         (''network'', [''networking'', ''dns'', ''load-balancer'', ''firewall'']),
         (''security'', [''security'', ''soc'', ''incident-response'']),
         (''application'', [''backend'', ''frontend'', ''java'', ''python'', ''nodejs'']),
         (''performance'', [''performance'', ''optimization'', ''profiling''])] k of
        None \<Rightarrow> [] | Some ks \<Rightarrow> ks)"

fun append_members :: "TeamMember list \<Rightarrow> TeamMember list \<Rightarrow> TeamMember list" where
  "append_members [] selected = selected"
| "append_members (m # ms) selected =
     append_members ms
       (if m \<notin> set selected \<and> length selected < 5 then selected @ [m] else selected)"

definition select_relevant_team_members :: "Incident \<Rightarrow> TeamMember list \<Rightarrow> TeamMember list" where
  "select_relevant_team_members i all_members =
     (let on_call_members = filter on_call all_members;
          relevant_skills = category_skills (category_value (category i));
          skilled_members =
            filter (\<lambda>m. list_ex (\<lambda>skill. skill \<in> set (skills m)) relevant_skills) all_members;
          selected = take 2 on_call_members;
          selected = append_members skilled_members selected;
          selected = append_members all_members selected
      in selected)"

text \<open>
  For the statement of the selection: a list without its repeated entries, each entry
  kept where it occurs first.
\<close>

fun first_occurrences :: "'a list \<Rightarrow> 'a list" where
  "first_occurrences [] = []"
| "first_occurrences (x # xs) = x # first_occurrences (filter (\<lambda>y. y \<noteq> x) xs)"

section \<open>The workflow builder (agents/orchestrator.py)\<close>

text \<open>
  \<open>recommend_workflow_steps\<close> asks the decision provider and falls back to
  \<open>_get_default_workflow_steps\<close> on any exception.  The \<open>planner\<close> holds what the
  repository does not define: the provider (\<open>_get_model\<close> and \<open>generate_text\<close> together; its
  prompt is a fixed template filled with the incident's title, severity, category and
  description and the joined tool names, so the provider is a function of the incident and
  that string; it answers with text or raises), \<open>str.strip\<close> (which removes the white
  space of Unicode, while the strings here are bytes), \<open>json.loads\<close>, the validation of the
  fields of a \<open>WorkflowStep\<close> by the model class, and the supply of fresh step identifiers
  (\<open>uuid4\<close>), of which the \<open>k\<close>-th is used for the \<open>k\<close>-th step made.
\<close>

fun py_join :: "string \<Rightarrow> string list \<Rightarrow> string" where
  "py_join sep [] = []"
| "py_join sep [x] = x"
| "py_join sep (x # y # ys) = x @ sep @ py_join sep (y # ys)"

fun type_name :: "pyval \<Rightarrow> string" where
  "type_name PNone = ''NoneType''"
| "type_name (PBool b) = ''bool''"
| "type_name (PInt i) = ''int''"
| "type_name (PStr s) = ''str''"
| "type_name (PList xs) = ''list''"
| "type_name (PDict d) = ''dict''"

definition quoted :: "string \<Rightarrow> string" where
  "quoted s = [CHR 0x27] @ s @ [CHR 0x27]"

fun py_iter :: "pyval \<Rightarrow> string + pyval list" where
  "py_iter (PList xs) = Inr xs"
| "py_iter (PDict d) = Inr (map (\<lambda>kv. PStr (fst kv)) d)"
| "py_iter (PStr s) = Inr (map (\<lambda>ch. PStr [ch]) s)"
| "py_iter v = Inl (quoted (type_name v) @ '' object is not iterable'')"

fun py_get :: "pyval \<Rightarrow> string \<Rightarrow> pyval \<Rightarrow> string + pyval" where
  "py_get (PDict d) k dflt = Inr (dict_get_or d k dflt)"
| "py_get v k dflt = Inl (quoted (type_name v) @ '' object has no attribute '' @ quoted ''get'')"

record planner =
  generate_text :: "Incident \<Rightarrow> string \<Rightarrow> string + string"
  str_strip :: "string \<Rightarrow> string"
  json_loads :: "string \<Rightarrow> string + pyval"
  validate_str :: "pyval \<Rightarrow> string + string"
  validate_dict :: "pyval \<Rightarrow> string + pydict"
  uuid4 :: "nat \<Rightarrow> string"

definition new_WorkflowStep ::
  "string \<Rightarrow> string \<Rightarrow> string \<Rightarrow> string \<Rightarrow> pydict \<Rightarrow> WorkflowStep" where
  "new_WorkflowStep uid n a t ps =
     \<lparr>step_id = uid, name = n, action = a, target_tool = t, parameters = ps,
      status = ''pending'', result = None, error = None, started_at = None,
      completed_at = None\<rparr>"

definition step_of_data :: "planner \<Rightarrow> nat \<Rightarrow> pyval \<Rightarrow> string + WorkflowStep" where
  "step_of_data P k step_data =
     (case py_get step_data ''name'' (PStr ''Unknown Step'') of Inl e \<Rightarrow> Inl e | Inr vn \<Rightarrow>
      case py_get step_data ''action'' (PStr ''unknown'') of Inl e \<Rightarrow> Inl e | Inr va \<Rightarrow>
      case py_get step_data ''target_tool'' (PStr ''unknown'') of Inl e \<Rightarrow> Inl e | Inr vt \<Rightarrow>
      case py_get step_data ''parameters'' (PDict []) of Inl e \<Rightarrow> Inl e | Inr vp \<Rightarrow>
      case validate_str P vn of Inl e \<Rightarrow> Inl e | Inr n \<Rightarrow>
      case validate_str P va of Inl e \<Rightarrow> Inl e | Inr a \<Rightarrow>
      case validate_str P vt of Inl e \<Rightarrow> Inl e | Inr t \<Rightarrow>
      case validate_dict P vp of Inl e \<Rightarrow> Inl e | Inr ps \<Rightarrow>
      Inr (new_WorkflowStep (uuid4 P k) n a t ps))"

fun steps_of_data :: "planner \<Rightarrow> nat \<Rightarrow> pyval list \<Rightarrow> (string + WorkflowStep list) \<times> nat" where
  "steps_of_data P k [] = (Inr [], k)"
| "steps_of_data P k (step_data # rest) =
     (case step_of_data P k step_data of
        Inl e \<Rightarrow> (Inl e, k)
      | Inr s \<Rightarrow>
          (case steps_of_data P (Suc k) rest of
             (Inl e, k') \<Rightarrow> (Inl e, k')
           | (Inr ss, k') \<Rightarrow> (Inr (s # ss), k')))"

definition get_default_workflow_steps :: "planner \<Rightarrow> nat \<Rightarrow> Incident \<Rightarrow> WorkflowStep list" where
  "get_default_workflow_steps P k i =
     (let first_steps =
            [new_WorkflowStep (uuid4 P k) ''Create ServiceNow Ticket'' ''create_ticket''
               ''servicenow'' [(''incident_id'', PStr (inc_id i))],
             new_WorkflowStep (uuid4 P (k + 1)) ''Create Incident Channel'' ''create_channel''
               ''slack'' [(''incident_id'', PStr (inc_id i))]];
          more_steps =
            (if severity i \<in> set [CRITICAL, HIGH] then
               first_steps @
               [new_WorkflowStep (uuid4 P (k + 2)) ''Notify Response Team'' ''notify_team''
                  ''slack'' [(''urgency'', PStr ''high'')],
                new_WorkflowStep (uuid4 P (k + 3)) ''Analyze Recent Changes'' ''analyze_commits''
                  ''github'' [(''hours_back'', PInt 24)]]
             else first_steps)
      in more_steps @
         [new_WorkflowStep (uuid4 P (k + length more_steps)) ''Create Post-Mortem Template''
            ''create_postmortem'' ''confluence'' [(''incident_id'', PStr (inc_id i))]])"

definition recommend_workflow_steps ::
  "planner \<Rightarrow> nat \<Rightarrow> Incident \<Rightarrow> string list \<Rightarrow> WorkflowStep list" where
  "recommend_workflow_steps P k i available_tools =
     (let tools_str = py_join '', '' available_tools in
      case generate_text P i tools_str of
        Inl e \<Rightarrow> get_default_workflow_steps P k i
      | Inr response \<Rightarrow>
          (case json_loads P (str_strip P response) of
             Inl e \<Rightarrow> get_default_workflow_steps P k i
           | Inr steps_data \<Rightarrow>
               (case py_iter steps_data of
                  Inl e \<Rightarrow> get_default_workflow_steps P k i
                | Inr items \<Rightarrow>
                    (case steps_of_data P k items of
                       (Inl e, k') \<Rightarrow> get_default_workflow_steps P k' i
                     | (Inr workflow_steps, k') \<Rightarrow> workflow_steps))))"

section \<open>The fixed playbook (workflows/incident_workflow.py)\<close>

text \<open>
  A computation that reads and changes a state and returns a value or raises: the
  exception is \<open>Inl\<close> of its text, and the state at the time of the exception is kept, as
  the effects of a Python block remain when it raises.  \<open>p_bind m f\<close> is \<open>m\<close> followed by
  \<open>f\<close>; an exception of \<open>m\<close> skips \<open>f\<close>.  \<open>e_bind\<close> is the same for computations without
  state.
\<close>

type_synonym ('a, 's) prog = "'s \<Rightarrow> (string + 'a) \<times> 's"

definition p_return :: "'a \<Rightarrow> ('a, 's) prog" where
  "p_return x st = (Inr x, st)"

definition p_bind :: "('a, 's) prog \<Rightarrow> ('a \<Rightarrow> ('b, 's) prog) \<Rightarrow> ('b, 's) prog" where
  "p_bind m f st = (case m st of (Inl e, st1) \<Rightarrow> (Inl e, st1) | (Inr x, st1) \<Rightarrow> f x st1)"

definition p_then :: "(unit, 's) prog \<Rightarrow> ('b, 's) prog \<Rightarrow> ('b, 's) prog" where
  "p_then m k = p_bind m (\<lambda>u. k)"

definition p_lift :: "string + 'a \<Rightarrow> ('a, 's) prog" where
  "p_lift r st = (r, st)"

definition p_when :: "bool \<Rightarrow> (unit, 's) prog \<Rightarrow> (unit, 's) prog" where
  "p_when b m = (if b then m else p_return ())"

definition e_bind :: "string + 'a \<Rightarrow> ('a \<Rightarrow> string + 'b) \<Rightarrow> string + 'b" where
  "e_bind r f = (case r of Inl e \<Rightarrow> Inl e | Inr x \<Rightarrow> f x)"

text \<open>
  \<open>x[:n]\<close> on a value, the upper-case of an ASCII string, and the line feed.  Strings are
  sequences of bytes here, so a slice of a text with characters outside ASCII counts bytes
  where Python counts code points; the symbols in the messages below are their UTF-8
  encodings.
\<close>

fun py_slice :: "pyval \<Rightarrow> nat \<Rightarrow> string + pyval" where
  "py_slice (PList xs) n = Inr (PList (take n xs))"
| "py_slice (PStr s) n = Inr (PStr (take n s))"
| "py_slice v n = Inl (quoted (type_name v) @ '' object is not subscriptable'')"

definition py_upper :: "string \<Rightarrow> string" where
  "py_upper s = map (\<lambda>ch. if 97 \<le> (of_char ch :: nat) \<and> (of_char ch :: nat) \<le> 122
                          then char_of ((of_char ch :: nat) - 32) else ch) s"

definition newline :: string where
  "newline = [CHR 0x0A]"

text \<open>
  The state of a stage: the incident, the stage's result record and the world.  \<open>st_call\<close>
  calls a collaborator with the incident as it is then.
\<close>

record stage_state =
  st_incident :: Incident
  st_result :: pydict
  st_world :: world

type_synonym 'a stage = "('a, stage_state) prog"

definition st_call :: "env \<Rightarrow> (Incident \<Rightarrow> call) \<Rightarrow> pydict stage" where
  "st_call E mk st =
     (case invoke E (mk (st_incident st)) (st_world st) of
        (r, w1) \<Rightarrow> (r, st\<lparr>st_world := w1\<rparr>))"

definition st_call_text :: "env \<Rightarrow> (Incident \<Rightarrow> call) \<Rightarrow> pyval stage" where
  "st_call_text E mk st =
     (case invoke_text E (mk (st_incident st)) (st_world st) of
        (r, w1) \<Rightarrow> (r, st\<lparr>st_world := w1\<rparr>))"

definition st_set :: "string \<Rightarrow> pyval \<Rightarrow> unit stage" where
  "st_set k v st = (Inr (), st\<lparr>st_result := dict_set (st_result st) k v\<rparr>)"

definition st_update_incident :: "(Incident \<Rightarrow> Incident) \<Rightarrow> unit stage" where
  "st_update_incident f st = (Inr (), st\<lparr>st_incident := f (st_incident st)\<rparr>)"

definition st_with_incident :: "(Incident \<Rightarrow> 'a stage) \<Rightarrow> 'a stage" where
  "st_with_incident f st = f (st_incident st) st"

definition st_with_result :: "(pydict \<Rightarrow> 'a stage) \<Rightarrow> 'a stage" where
  "st_with_result f st = f (st_result st) st"

definition st_with_clock :: "(nat \<Rightarrow> 'a stage) \<Rightarrow> 'a stage" where
  "st_with_clock f st = f (clock (st_world st)) st"

type_synonym stage_outcome = "(string + pydict) \<times> Incident \<times> world"

text \<open>
  The frame every stage function shares: the result record is created with the status
  \<open>pending\<close>, the body runs inside \<open>try\<close>, an exception sets the status \<open>failed\<close> and
  the error text, and the completion time is set in either case.
\<close>

definition run_stage :: "env \<Rightarrow> string \<Rightarrow> pydict \<Rightarrow> unit stage \<Rightarrow> Incident \<Rightarrow> world \<Rightarrow> stage_outcome" where
  "run_stage E step_name extra body i w =
     (let result0 = [(''step'', PStr step_name), (''status'', PStr ''pending''),
                     (''started_at'', PStr (isoformat E (clock w)))] @ extra
      in case body \<lparr>st_incident = i, st_result = result0, st_world = w\<rparr> of
           (r, st) \<Rightarrow>
             (let result1 =
                    (case r of
                       Inr u \<Rightarrow> st_result st
                     | Inl e \<Rightarrow>
                         dict_set (dict_set (st_result st) ''status'' (PStr ''failed''))
                           ''error'' (PStr e));
                  result2 = dict_set result1 ''completed_at''
                              (PStr (isoformat E (clock (st_world st))))
              in (Inr result2, st_incident st, st_world st)))"

definition emoji_red :: string where "emoji_red = [CHR 0xF0, CHR 0x9F, CHR 0x94, CHR 0xB4]"

definition emoji_orange :: string where "emoji_orange = [CHR 0xF0, CHR 0x9F, CHR 0x9F, CHR 0xA0]"

definition emoji_yellow :: string where "emoji_yellow = [CHR 0xF0, CHR 0x9F, CHR 0x9F, CHR 0xA1]"

definition emoji_green :: string where "emoji_green = [CHR 0xF0, CHR 0x9F, CHR 0x9F, CHR 0xA2]"

definition emoji_clipboard :: string where "emoji_clipboard = [CHR 0xF0, CHR 0x9F, CHR 0x93, CHR 0x8B]"

definition emoji_speech :: string where "emoji_speech = [CHR 0xF0, CHR 0x9F, CHR 0x92, CHR 0xAC]"

definition emoji_page :: string where "emoji_page = [CHR 0xF0, CHR 0x9F, CHR 0x93, CHR 0x84]"

definition emoji_people :: string where "emoji_people = [CHR 0xF0, CHR 0x9F, CHR 0x91, CHR 0xA5]"

definition emoji_chart :: string where "emoji_chart = [CHR 0xF0, CHR 0x9F, CHR 0x93, CHR 0x8A]"

definition bullet :: string where "bullet = [CHR 0xE2, CHR 0x80, CHR 0xA2]"

definition INCIDENT_CHANNEL :: string where
  "INCIDENT_CHANNEL = ''#incident-response''"

fun get_priority :: "IncidentSeverity \<Rightarrow> string" where
  "get_priority CRITICAL = ''P1''"
| "get_priority HIGH = ''P2''"
| "get_priority MEDIUM = ''P3''"
| "get_priority LOW = ''P4''"

text \<open>Stage 1: create the ticket.\<close>

definition step1_body :: "env \<Rightarrow> unit stage" where
  "step1_body E =
     p_bind (st_call E ServiceNowCreateIncident) (\<lambda>snow_result.
       if truthy (dict_get snow_result ''success'') then
         p_then (st_update_incident
                   (\<lambda>i. i\<lparr>servicenow_ticket_id := dict_get snow_result ''number''\<rparr>))
        (p_then (st_set ''status'' (PStr ''completed''))
        (p_then (st_set ''ticket_number'' (dict_get snow_result ''number''))
        (p_then (st_set ''ticket_link'' (dict_get snow_result ''link''))
        (st_with_incident (\<lambda>i.
           st_set ''classification''
             (PDict [(''severity'', PStr (severity_value (severity i))),
                     (''category'', PStr (category_value (category i))),
                     (''priority'', PStr (get_priority (severity i)))]))))))
       else
         p_then (st_set ''status'' (PStr ''failed''))
                (st_set ''error'' (dict_get snow_result ''error'')))"

definition step1_create_servicenow_ticket :: "env \<Rightarrow> Incident \<Rightarrow> world \<Rightarrow> stage_outcome" where
  "step1_create_servicenow_ticket E = run_stage E ''Create ServiceNow Ticket'' [] (step1_body E)"

text \<open>
  Stage 2: create the incident channel and alert the main channel.  The conditional
  expression at the end of the alert text applies to the whole concatenation, so the text
  is empty when no channel id is set.
\<close>

fun severity_emoji :: "IncidentSeverity \<Rightarrow> string" where
  "severity_emoji CRITICAL = emoji_red"
| "severity_emoji HIGH = emoji_orange"
| "severity_emoji MEDIUM = emoji_yellow"
| "severity_emoji LOW = emoji_green"

definition alert_message :: "env \<Rightarrow> Incident \<Rightarrow> string" where
  "alert_message E i =
     (if truthy (slack_channel_id i) then
        severity_emoji (severity i) @ '' *'' @ py_upper (severity_value (severity i)) @
          '' INCIDENT DETECTED*'' @ newline @ newline @
        ''*Title:* '' @ title i @ newline @
        ''*Category:* '' @ category_value (category i) @ newline @
        ''*Affected Services:* '' @
          (if py_join '', '' (affected_services i) \<noteq> []
           then py_join '', '' (affected_services i) else ''TBD'') @ newline @ newline @
        ''*Description:*'' @ newline @ take 500 (description i) @ newline @ newline @
        emoji_clipboard @ '' ServiceNow: '' @
          py_str E (py_or (servicenow_ticket_id i) (PStr ''Creating...'')) @ newline @
        emoji_speech @ '' Incident Channel: <#'' @ py_str E (slack_channel_id i) @ ''>''
      else [])"

definition step2_body :: "env \<Rightarrow> unit stage" where
  "step2_body E =
     p_bind (st_call E SlackCreateIncidentChannel) (\<lambda>channel_result.
     p_then (p_when (truthy (dict_get channel_result ''success''))
               (p_then (st_update_incident
                          (\<lambda>i. i\<lparr>slack_channel_id := dict_get channel_result ''channel_id''\<rparr>))
               (p_then (st_set ''incident_channel'' (dict_get channel_result ''channel_name''))
                       (st_set ''channel_link'' (dict_get channel_result ''link'')))))
    (p_bind (st_call E (\<lambda>i. SlackNotifyTeam (PStr INCIDENT_CHANNEL) (alert_message E i) i))
       (\<lambda>notify_result.
          if truthy (dict_get notify_result ''success'') then
            p_then (st_set ''status'' (PStr ''completed''))
           (p_then (st_set ''alert_sent'' (PBool True))
                   (st_set ''alert_channel'' (PStr INCIDENT_CHANNEL)))
          else
            p_then (st_set ''status'' (PStr ''partial''))
                   (st_set ''error'' (dict_get notify_result ''error'')))))"

definition step2_send_slack_alert :: "env \<Rightarrow> Incident \<Rightarrow> world \<Rightarrow> stage_outcome" where
  "step2_send_slack_alert E = run_stage E ''Send Slack Alert'' [] (step2_body E)"

text \<open>
  Stage 3: gather commits, deployments and failed build runs for each repository; the
  three loops are recursive functions over the repositories.
\<close>

definition st_set_diagnostics :: "string \<Rightarrow> pyval \<Rightarrow> unit stage" where
  "st_set_diagnostics k v =
     st_with_result (\<lambda>r.
       p_bind (p_lift (case dict_get r ''diagnostics'' of
                         PDict d \<Rightarrow> Inr d
                       | x \<Rightarrow> Inl (quoted (type_name x) @
                                   '' object does not support item assignment'')))
         (\<lambda>d. st_set ''diagnostics'' (PDict (dict_set d k v))))"

fun gather_commits :: "env \<Rightarrow> int \<Rightarrow> string list \<Rightarrow> pyval list \<Rightarrow> (pyval list) stage" where
  "gather_commits E hours_back [] commits_data = p_return commits_data"
| "gather_commits E hours_back (repo # repos) commits_data =
     p_bind (st_call E (\<lambda>i. GithubAnalyzeRecentCommits repo hours_back (affected_services i)))
       (\<lambda>commits_result.
          if truthy (dict_get commits_result ''success'') then
            p_bind (p_lift (py_slice (dict_get_or commits_result ''commits'' (PList [])) 10))
              (\<lambda>commits.
                 gather_commits E hours_back repos
                   (commits_data @
                    [PDict [(''repository'', PStr repo),
                            (''total_commits'', dict_get_or commits_result ''total_commits'' (PInt 0)),
                            (''high_relevance'',
                               dict_get_or commits_result ''high_relevance_count'' (PInt 0)),
                            (''commits'', commits)]]))
          else gather_commits E hours_back repos commits_data)"

fun gather_deployments :: "env \<Rightarrow> string list \<Rightarrow> pyval list \<Rightarrow> (pyval list) stage" where
  "gather_deployments E [] deployment_data = p_return deployment_data"
| "gather_deployments E (repo # repos) deployment_data =
     p_bind (st_call E (\<lambda>i. GithubGetRecentDeployments repo ''production''))
       (\<lambda>deploy_result.
          if truthy (dict_get deploy_result ''success'') then
            p_bind (p_lift (py_slice (dict_get_or deploy_result ''deployments'' (PList [])) 5))
              (\<lambda>deployments.
                 gather_deployments E repos
                   (deployment_data @
                    [PDict [(''repository'', PStr repo), (''deployments'', deployments)]]))
          else gather_deployments E repos deployment_data)"

fun gather_workflow_runs :: "env \<Rightarrow> string list \<Rightarrow> pyval list \<Rightarrow> (pyval list) stage" where
  "gather_workflow_runs E [] workflow_data = p_return workflow_data"
| "gather_workflow_runs E (repo # repos) workflow_data =
     p_bind (st_call E (\<lambda>i. GithubGetWorkflowRuns repo ''failure''))
       (\<lambda>workflow_result.
          if truthy (dict_get workflow_result ''success'') then
            p_bind (p_lift (py_slice (dict_get_or workflow_result ''runs'' (PList [])) 5))
              (\<lambda>runs.
                 gather_workflow_runs E repos
                   (workflow_data @
                    [PDict [(''repository'', PStr repo), (''failed_runs'', runs)]]))
          else gather_workflow_runs E repos workflow_data)"

definition step3_body :: "env \<Rightarrow> AppConfig \<Rightarrow> string list option \<Rightarrow> unit stage" where
  "step3_body E cfg repositories =
     (let repos = (case repositories of
                     None \<Rightarrow> [github_org cfg @ ''/main-app'']
                   | Some rs \<Rightarrow> if rs = [] then [github_org cfg @ ''/main-app''] else rs)
      in
      st_with_incident (\<lambda>i0.
      p_bind (gather_commits E (if severity i0 \<in> set [CRITICAL, HIGH] then 48 else 72) repos [])
        (\<lambda>commits_data.
      p_then (st_set_diagnostics ''recent_commits'' (PList commits_data))
     (p_bind (gather_deployments E repos []) (\<lambda>deployment_data.
      p_then (st_set_diagnostics ''recent_deployments'' (PList deployment_data))
     (p_bind (gather_workflow_runs E repos []) (\<lambda>workflow_data.
      p_then (st_set_diagnostics ''failed_workflows'' (PList workflow_data))
     (p_then (st_set_diagnostics ''error_logs''
                (PDict [(''status'', PStr ''collected''),
                        (''sources'', PList [PStr ''application'', PStr ''infrastructure'']),
                        (''note'', PStr ''Integrate with your log aggregation system (ELK, Splunk, etc.)'')]))
     (p_then (st_set_diagnostics ''metrics''
                (PDict [(''status'', PStr ''collected''),
                        (''sources'', PList [PStr ''prometheus'', PStr ''datadog'']),
                        (''note'', PStr ''Integrate with your metrics system'')]))
             (st_set ''status'' (PStr ''completed'')))))))))))"

definition step3_gather_diagnostics ::
  "env \<Rightarrow> AppConfig \<Rightarrow> Incident \<Rightarrow> string list option \<Rightarrow> world \<Rightarrow> stage_outcome" where
  "step3_gather_diagnostics E cfg i repositories =
     run_stage E ''Gather Diagnostic Information'' [(''diagnostics'', PDict [])]
       (step3_body E cfg repositories) i"

text \<open>
  Stage 4: root cause analysis.  \<open>diagnostics_get\<close> is
  \<open>diagnostics.get("diagnostics", {}).get(key, default)\<close>; \<open>recommend_for\<close> is the loop of
  \<open>_generate_recommendations\<close> over the deployments and over the failed runs.
\<close>

fun collect_commits :: "pyval list \<Rightarrow> pyval list \<Rightarrow> string + pyval list" where
  "collect_commits [] recent_commits = Inr recent_commits"
| "collect_commits (repo_data # rest) recent_commits =
     e_bind (py_get repo_data ''commits'' (PList [])) (\<lambda>v.
     e_bind (py_iter v) (\<lambda>xs. collect_commits rest (recent_commits @ xs)))"

definition diagnostics_get :: "pydict \<Rightarrow> string \<Rightarrow> pyval \<Rightarrow> string + pyval" where
  "diagnostics_get diagnostics k dflt =
     py_get (dict_get_or diagnostics ''diagnostics'' (PDict [])) k dflt"

fun recommend_for ::
  "env \<Rightarrow> string \<Rightarrow> string \<Rightarrow> string \<Rightarrow> pyval list \<Rightarrow> string list \<Rightarrow> string + string list" where
  "recommend_for E k lead tail [] recommendations = Inr recommendations"
| "recommend_for E k lead tail (repo_data # rest) recommendations =
     e_bind (py_get repo_data k PNone) (\<lambda>v.
       if truthy v then
         e_bind (py_get repo_data ''repository'' PNone) (\<lambda>repo.
           recommend_for E k lead tail rest
             (recommendations @ [lead @ py_str E repo @ tail]))
       else recommend_for E k lead tail rest recommendations)"

definition category_recs :: "(string \<times> string) list" where
  "category_recs =
     [(''database'', ''Check database connection pools and recent schema changes''),
      (''infrastructure'', ''Verify container/pod health and resource limits''),
      (''network'', ''Check DNS resolution and load balancer health''),
      (''security'', ''Review authentication logs and access patterns''),
      (''application'', ''Check application logs for exceptions and errors'')]"

definition generate_recommendations :: "env \<Rightarrow> Incident \<Rightarrow> pydict \<Rightarrow> string + string list" where
  "generate_recommendations E i diagnostics =
     e_bind (diagnostics_get diagnostics ''recent_deployments'' (PList [])) (\<lambda>deployments.
     e_bind (py_iter deployments) (\<lambda>ds.
     e_bind (recommend_for E ''deployments'' ''Recent deployment detected in ''
               '' - consider rollback if needed'' ds []) (\<lambda>recs1.
     e_bind (diagnostics_get diagnostics ''failed_workflows'' (PList [])) (\<lambda>failed_workflows.
     e_bind (py_iter failed_workflows) (\<lambda>fs.
     e_bind (recommend_for E ''failed_runs'' ''Failed CI/CD runs in ''
               '' - investigate build failures'' fs recs1) (\<lambda>recs2.
     Inr (case map_of category_recs (category_value (category i)) of
            None \<Rightarrow> recs2
          | Some r \<Rightarrow> recs2 @ [r])))))))"

definition step4_body :: "env \<Rightarrow> pydict \<Rightarrow> unit stage" where
  "step4_body E diagnostics =
     p_bind (p_lift (diagnostics_get diagnostics ''recent_commits'' (PList []))) (\<lambda>rc.
     p_bind (p_lift (py_iter rc)) (\<lambda>repo_datas.
     p_bind (p_lift (collect_commits repo_datas [])) (\<lambda>recent_commits.
     p_bind (p_lift (diagnostics_get diagnostics ''metrics'' PNone)) (\<lambda>metrics.
     p_bind (st_call_text E (\<lambda>i. AiGenerateRootCauseHypothesis i PNone
                                  (PList (take 10 recent_commits)) metrics)) (\<lambda>hypothesis.
     p_then (st_update_incident (\<lambda>i. i\<lparr>root_cause_hypothesis := hypothesis\<rparr>))
    (st_with_incident (\<lambda>i.
     p_bind (p_lift (generate_recommendations E i diagnostics)) (\<lambda>recommendations.
     p_then (st_set ''status'' (PStr ''completed''))
    (p_then (st_set ''hypothesis'' hypothesis)
    (p_then (st_set ''recommendations'' (PList (map PStr recommendations)))
    (p_then (st_set ''confidence'' (PStr ''medium''))
    (p_then (st_set ''analyzed_commits'' (PInt (int (length recent_commits))))
    (p_when (truthy (slack_channel_id i))
       (p_bind (p_lift (py_slice hypothesis 500)) (\<lambda>h500.
        p_bind (st_call E (\<lambda>i1. SlackPostIncidentUpdate (slack_channel_id i1) i1
                   ''analysis_complete''
                   (''*Root Cause Analysis Complete*'' @ newline @ newline @
                    py_str E h500 @ ''...'')))
          (\<lambda>u. p_return ()))))))))))))))))"

definition step4_analyze_root_cause ::
  "env \<Rightarrow> Incident \<Rightarrow> pydict \<Rightarrow> world \<Rightarrow> stage_outcome" where
  "step4_analyze_root_cause E i diagnostics =
     run_stage E ''Analyze Root Cause'' [] (step4_body E diagnostics) i"

text \<open>Stage 5: create the documentation page.\<close>

definition step5_body :: "env \<Rightarrow> unit stage" where
  "step5_body E =
     p_bind (st_call E ConfluenceCreatePostmortem) (\<lambda>confluence_result.
       if truthy (dict_get confluence_result ''success'') then
         p_then (st_update_incident
                   (\<lambda>i. i\<lparr>confluence_page_id := dict_get confluence_result ''page_id''\<rparr>))
        (p_then (st_set ''status'' (PStr ''completed''))
        (p_then (st_set ''page_id'' (dict_get confluence_result ''page_id''))
        (p_then (st_set ''page_url'' (dict_get confluence_result ''page_url''))
        (p_then (st_set ''page_title'' (dict_get confluence_result ''title''))
        (st_with_incident (\<lambda>i.
           p_when (truthy (slack_channel_id i))
             (p_bind (st_call E (\<lambda>i1. SlackPostIncidentUpdate (slack_channel_id i1) i1
                        ''status_change''
                        (emoji_page @ '' Incident page created: '' @
                         py_str E (dict_get confluence_result ''page_url''))))
                (\<lambda>u. p_return ()))))))))
       else
         p_then (st_set ''status'' (PStr ''failed''))
                (st_set ''error'' (dict_get confluence_result ''error'')))"

definition step5_create_confluence_page :: "env \<Rightarrow> Incident \<Rightarrow> world \<Rightarrow> stage_outcome" where
  "step5_create_confluence_page E = run_stage E ''Create Confluence Incident Page'' [] (step5_body E)"

text \<open>Stage 6: create the issue, assign it, assemble the team, notify.\<close>

definition assignee_skills :: "(string \<times> string list) list" where
  "assignee_skills =
     [(''database'', [''dba'', ''postgresql'', ''mysql'', ''sql'']),
      (''infrastructure'', [''sre'', ''devops'', ''kubernetes'']),
      (''security'', [''security'', ''soc'']),
      (''network'', [''networking'', ''dns'']),
      (''application'', [''backend'', ''developer''])]"

definition select_assignee :: "Incident \<Rightarrow> TeamMember list \<Rightarrow> TeamMember option" where
  "select_assignee i members =
     (case filter on_call members of
        m # ms \<Rightarrow> Some m
      | [] \<Rightarrow>
          (let relevant_skills = (case map_of assignee_skills (category_value (category i)) of
                                    None \<Rightarrow> [] | Some ks \<Rightarrow> ks)
           in case filter (\<lambda>m. list_ex (\<lambda>skill. skill \<in> set (skills m)) relevant_skills)
                     members of
                m # ms \<Rightarrow> Some m
              | [] \<Rightarrow> (case members of [] \<Rightarrow> None | m # ms \<Rightarrow> Some m)))"

definition select_response_team :: "Incident \<Rightarrow> TeamMember list \<Rightarrow> TeamMember list" where
  "select_response_team i all_members =
     append_members all_members (take 2 (filter on_call all_members))"

definition notification_text :: "env \<Rightarrow> Incident \<Rightarrow> pydict \<Rightarrow> string" where
  "notification_text E i r =
     emoji_people @ '' *Incident Assigned*'' @ newline @ newline @
     ''*Jira:* '' @ py_str E (dict_get_or r ''jira_url'' (PStr ''N/A'')) @ newline @
     ''*ServiceNow:* '' @ py_str E (py_or (servicenow_ticket_id i) (PStr ''N/A'')) @ newline @
     ''*Confluence:* '' @ py_str E (py_or (confluence_page_id i) (PStr ''N/A'')) @ newline @
     ''*Assigned To:* '' @ py_str E (dict_get_or r ''assigned_to'' (PStr ''Unassigned''))"

definition step6_body :: "env \<Rightarrow> TeamMember list option \<Rightarrow> unit stage" where
  "step6_body E tm =
     (let members = (case tm of None \<Rightarrow> [] | Some ms \<Rightarrow> ms) in
      p_bind (st_call E JiraCreateIncidentIssue) (\<lambda>jira_result.
      p_then (p_when (truthy (dict_get jira_result ''success''))
                (p_then (st_set ''jira_issue'' (dict_get jira_result ''issue_key''))
                (p_then (st_set ''jira_url'' (dict_get jira_result ''issue_url''))
                (p_when (members \<noteq> [])
                   (st_with_incident (\<lambda>i.
                      case select_assignee i members of
                        None \<Rightarrow> p_return ()
                      | Some relevant_member \<Rightarrow>
                          p_when (email relevant_member \<noteq> [])
                            (p_bind (st_call E (\<lambda>i1. JiraAssignIssue
                                       (dict_get jira_result ''issue_key'')
                                       (PStr (email relevant_member))))
                               (\<lambda>assign_result.
                                  p_then (st_set ''assigned_to'' (PStr (tm_name relevant_member)))
                                    (st_update_incident (\<lambda>i1. i1\<lparr>assigned_responders :=
                                       assigned_responders i1 @ [tm_id relevant_member]\<rparr>))))))))))
     (p_then (st_with_incident (\<lambda>i.
                p_when (members \<noteq> [] \<and> truthy (slack_channel_id i))
                  (p_bind (st_call E (\<lambda>i1. SlackAssembleResponseTeam i1
                             (select_response_team i1 members) (slack_channel_id i1)))
                     (\<lambda>team_result.
                        st_set ''team_assembled''
                          (dict_get_or team_result ''assembled_count'' (PInt 0))))))
     (p_then (st_with_incident (\<lambda>i. st_with_result (\<lambda>r.
                p_when (truthy (slack_channel_id i))
                  (p_bind (st_call E (\<lambda>i1. SlackPostIncidentUpdate (slack_channel_id i1) i1
                             ''team_assigned'' (notification_text E i r)))
                     (\<lambda>u. p_return ())))))
             (st_set ''status'' (PStr ''completed''))))))"

definition step6_assign_and_notify ::
  "env \<Rightarrow> Incident \<Rightarrow> TeamMember list option \<Rightarrow> world \<Rightarrow> stage_outcome" where
  "step6_assign_and_notify E i tm = run_stage E ''Assign and Notify'' [] (step6_body E tm) i"

text \<open>Stage 7: mark the incident in progress and announce monitoring.\<close>

definition monitoring_message :: "Incident \<Rightarrow> string" where
  "monitoring_message i =
     emoji_chart @ '' *Monitoring Active*'' @ newline @ newline @
     bullet @ '' Incident status: *'' @ status_value (inc_status i) @ ''*'' @ newline @
     bullet @ '' Response team assembled'' @ newline @
     bullet @ '' All systems linked and tracking'' @ newline @ newline @
     ''_Updates will be automatically posted to this channel._''"

definition step7_body :: "env \<Rightarrow> unit stage" where
  "step7_body E =
     p_then (st_with_clock (\<lambda>t. st_update_incident
               (\<lambda>i. i\<lparr>inc_status := IN_PROGRESS, acknowledged_at := Some t\<rparr>)))
    (p_then (st_with_incident (\<lambda>i.
               p_when (truthy (servicenow_ticket_id i))
                 (p_bind (st_call E (\<lambda>i1. ServiceNowAddWorkNote (servicenow_ticket_id i1)
                            ''Incident workflow completed. Team assigned. Monitoring active.''))
                    (\<lambda>u. p_return ()))))
    (p_then (st_with_incident (\<lambda>i.
               p_when (truthy (slack_channel_id i))
                 (p_bind (st_call E (\<lambda>i1. SlackNotifyTeam (slack_channel_id i1)
                            (monitoring_message i1) i1))
                    (\<lambda>u. p_return ()))))
    (p_then (st_set ''status'' (PStr ''completed''))
    (p_then (st_set ''monitoring_active'' (PBool True))
    (st_with_incident (\<lambda>i.
       p_then (st_set ''incident_status'' (PStr (status_value (inc_status i))))
              (st_set ''tracking_enabled''
                 (PDict [(''servicenow'', PBool (truthy (servicenow_ticket_id i))),
                         (''slack'', PBool (truthy (slack_channel_id i))),
                         (''confluence'', PBool (truthy (confluence_page_id i))),
                         (''jira'', PBool True)]))))))))"

definition step7_monitor_and_update :: "env \<Rightarrow> Incident \<Rightarrow> world \<Rightarrow> stage_outcome" where
  "step7_monitor_and_update E = run_stage E ''Monitor and Update'' [] (step7_body E)"

text \<open>
  \<open>execute_workflow\<close>, the driver of the seven stages.  It is written over the seven stage
  functions it calls, each of which may return a record or raise; the playbook is the
  driver with the stage functions above.  The overall result is a dictionary whose entry
  \<open>steps\<close> collects the stage records.  The registry entry made at the start is not
  represented.
\<close>

record stage_functions =
  stage1 :: "Incident \<Rightarrow> world \<Rightarrow> stage_outcome"
  stage2 :: "Incident \<Rightarrow> world \<Rightarrow> stage_outcome"
  stage3 :: "Incident \<Rightarrow> string list option \<Rightarrow> world \<Rightarrow> stage_outcome"
  stage4 :: "Incident \<Rightarrow> pydict \<Rightarrow> world \<Rightarrow> stage_outcome"
  stage5 :: "Incident \<Rightarrow> world \<Rightarrow> stage_outcome"
  stage6 :: "Incident \<Rightarrow> TeamMember list option \<Rightarrow> world \<Rightarrow> stage_outcome"
  stage7 :: "Incident \<Rightarrow> world \<Rightarrow> stage_outcome"

record run_state =
  run_incident :: Incident
  workflow_result :: pydict
  run_world :: world

definition steps_of :: "pydict \<Rightarrow> pydict" where
  "steps_of wr = (case dict_get wr ''steps'' of PDict d \<Rightarrow> d | x \<Rightarrow> [])"

definition errors_of :: "pydict \<Rightarrow> pyval list" where
  "errors_of wr = (case dict_get wr ''errors'' of PList es \<Rightarrow> es | x \<Rightarrow> [])"

definition call_stage ::
  "string \<Rightarrow> (Incident \<Rightarrow> world \<Rightarrow> stage_outcome) \<Rightarrow> (pydict, run_state) prog" where
  "call_stage k f st =
     (case f (run_incident st) (run_world st) of
        (Inl e, i1, w1) \<Rightarrow> (Inl e, st\<lparr>run_incident := i1, run_world := w1\<rparr>)
      | (Inr r, i1, w1) \<Rightarrow>
          (Inr r, st\<lparr>run_incident := i1, run_world := w1,
                     workflow_result :=
                       dict_set (workflow_result st) ''steps''
                         (PDict (dict_set (steps_of (workflow_result st)) k (PDict r)))\<rparr>))"

definition workflow_body ::
  "stage_functions \<Rightarrow> env \<Rightarrow> string list option \<Rightarrow> TeamMember list option \<Rightarrow>
     (unit, run_state) prog" where
  "workflow_body S E repositories tm =
     p_bind (call_stage ''1_create_servicenow_ticket'' (stage1 S)) (\<lambda>step1_result.
     p_bind (call_stage ''2_send_slack_alert'' (stage2 S)) (\<lambda>step2_result.
     p_bind (call_stage ''3_gather_diagnostics'' (\<lambda>i. stage3 S i repositories)) (\<lambda>step3_result.
     p_bind (call_stage ''4_analyze_root_cause'' (\<lambda>i. stage4 S i step3_result)) (\<lambda>step4_result.
     p_bind (call_stage ''5_create_confluence_page'' (stage5 S)) (\<lambda>step5_result.
     p_bind (call_stage ''6_assign_and_notify'' (\<lambda>i. stage6 S i tm)) (\<lambda>step6_result.
     p_bind (call_stage ''7_monitor_and_update'' (stage7 S)) (\<lambda>step7_result.
       (\<lambda>st. (Inr (), st\<lparr>workflow_result :=
                  dict_set (workflow_result st) ''completed_at''
                    (PStr (isoformat E (clock (run_world st))))\<rparr>)))))))))"

definition execute_workflow_with ::
  "stage_functions \<Rightarrow> env \<Rightarrow> Incident \<Rightarrow> string list option \<Rightarrow> TeamMember list option \<Rightarrow>
     world \<Rightarrow> pydict \<times> Incident \<times> world" where
  "execute_workflow_with S E i repositories tm w =
     (let workflow_result0 =
            [(''incident_id'', PStr (inc_id i)),
             (''workflow_name'', PStr ''Incident Response Workflow''),
             (''started_at'', PStr (isoformat E (clock w))),
             (''steps'', PDict []),
             (''success'', PBool True),
             (''errors'', PList [])]
      in case workflow_body S E repositories tm
                \<lparr>run_incident = i, workflow_result = workflow_result0, run_world = w\<rparr> of
           (Inr u, st) \<Rightarrow> (workflow_result st, run_incident st, run_world st)
         | (Inl e, st) \<Rightarrow>
             (dict_set (dict_set (workflow_result st) ''success'' (PBool False))
                ''errors'' (PList (errors_of (workflow_result st) @ [PStr e])),
              run_incident st, run_world st))"

definition playbook_stages :: "env \<Rightarrow> AppConfig \<Rightarrow> stage_functions" where
  "playbook_stages E cfg =
     \<lparr>stage1 = step1_create_servicenow_ticket E,
      stage2 = step2_send_slack_alert E,
      stage3 = step3_gather_diagnostics E cfg,
      stage4 = step4_analyze_root_cause E,
      stage5 = step5_create_confluence_page E,
      stage6 = step6_assign_and_notify E,
      stage7 = step7_monitor_and_update E\<rparr>"

definition playbook_execute_workflow ::
  "env \<Rightarrow> AppConfig \<Rightarrow> Incident \<Rightarrow> string list option \<Rightarrow> TeamMember list option \<Rightarrow>
     world \<Rightarrow> pydict \<times> Incident \<times> world" where
  "playbook_execute_workflow E cfg = execute_workflow_with (playbook_stages E cfg) E"

text \<open>
  For the statements about the driver: the keys of the seven stages in order, that one of
  the stage functions raises an exception with a given text, and the state of a run in
  which the stages with the given keys have returned and none has raised.
\<close>

definition stage_keys :: "string list" where
  "stage_keys = [''1_create_servicenow_ticket'', ''2_send_slack_alert'', ''3_gather_diagnostics'',
     ''4_analyze_root_cause'', ''5_create_confluence_page'', ''6_assign_and_notify'',
     ''7_monitor_and_update'']"

definition stage_raises :: "stage_functions \<Rightarrow> string \<Rightarrow> bool" where
  "stage_raises S e =
     ((\<exists>i w. fst (stage1 S i w) = Inl e) \<or> (\<exists>i w. fst (stage2 S i w) = Inl e) \<or>
      (\<exists>i rs w. fst (stage3 S i rs w) = Inl e) \<or> (\<exists>i d w. fst (stage4 S i d w) = Inl e) \<or>
      (\<exists>i w. fst (stage5 S i w) = Inl e) \<or> (\<exists>i tm w. fst (stage6 S i tm w) = Inl e) \<or>
      (\<exists>i w. fst (stage7 S i w) = Inl e))"

definition run_inv :: "string list \<Rightarrow> run_state \<Rightarrow> bool" where
  "run_inv ks st =
     (map fst (steps_of (workflow_result st)) = ks \<and>
      dict_get (workflow_result st) ''success'' = PBool True \<and>
      dict_get (workflow_result st) ''errors'' = PList [])"

definition good_outcome :: "stage_functions \<Rightarrow> (string + unit) \<times> run_state \<Rightarrow> bool" where
  "good_outcome S out =
     (case out of
        (Inl e, st) \<Rightarrow> (\<exists>ks. run_inv ks st \<and> strict_prefix ks stage_keys) \<and> stage_raises S e
      | (Inr u, st) \<Rightarrow> run_inv stage_keys st)"

section \<open>Concrete inputs\<close>

text \<open>
  The inputs of the concrete runs below: incidents, steps, a configuration with
  ticketing on and one with ticketing off, and environments in which every collaborator
  is unreachable (it raises), rejects the request, or succeeds, and one in which only the
  code host is unreachable.  The other ten handlers are stand-ins; the runs below never
  dispatch to them.  Further a roster of three members, decision providers that raise,
  answer with text that is not JSON, or answer with text that \<open>json.loads\<close> reads as a
  given value, and a set of stage functions of which the third raises.
\<close>

definition incident0 :: Incident where
  "incident0 = \<lparr>inc_id = ''inc-1'', title = ''API down'', description = ''The API returns 500'',
     severity = HIGH, inc_status = DETECTED, category = DATABASE, source_system = ''manual'',
     source_alert_id = None, affected_services = [''api''], affected_components = [],
     servicenow_ticket_id = PNone, github_issue_url = None, slack_channel_id = PNone,
     confluence_page_id = PNone, assigned_team = None, assigned_responders = [],
     root_cause_hypothesis = PNone, resolution_steps = [], detected_at = 0,
     acknowledged_at = None, mitigated_at = None, resolved_at = None, tags = [],
     metadata = []\<rparr>"

definition world0 :: world where
  "world0 = \<lparr>calls = [], clock = 0\<rparr>"

definition context0 :: Context where
  "context0 = \<lparr>incident = incident0, team_members = [], results = Map.empty\<rparr>"

definition env_of :: "(call list \<Rightarrow> call \<Rightarrow> string + pydict) \<Rightarrow> env" where
  "env_of f = \<lparr>respond = f, respond_text = (\<lambda>h cl. Inr (PStr ''unknown'')),
     delay = (\<lambda>h cl. 1), py_str = (\<lambda>v. case v of PStr s \<Rightarrow> s | _ \<Rightarrow> ''None''),
     isoformat = (\<lambda>t. ''t''),
     validate_opt_str = (\<lambda>v. case v of PNone \<Rightarrow> Inr None | PStr s \<Rightarrow> Inr (Some s) | _ \<Rightarrow> Inl ''validation error'')\<rparr>"

definition flags_on :: AppConfig where
  "flags_on = \<lparr>features = \<lparr>auto_ticketing = True, slack_notifications = True, confluence_docs = True, github_analysis = True\<rparr>, github_org = ''acme''\<rparr>"

definition stub_handlers :: other_handlers where
  "stub_handlers =
     (let h = (\<lambda>s c w. (Inl ''stand-in'', c, w)) in
      \<lparr>handle_update_ticket = h, handle_create_channel = h, handle_notify_team = h,
       handle_assemble_team = h, handle_analyze_commits = h, handle_gather_logs = h,
       handle_create_postmortem = h, handle_generate_hypothesis = h,
       handle_search_knowledge = h, handle_post_update = h\<rparr>)"

definition env_down :: env where
  "env_down = env_of (\<lambda>h cl. Inl ''connection refused'')"

definition env_rejecting :: env where
  "env_rejecting = env_of (\<lambda>h cl. Inr [(''success'', PBool False), (''error'', PStr ''HTTP 500'')])"

definition env_ok :: env where
  "env_ok = env_of (\<lambda>h cl. Inr [(''success'', PBool True), (''number'', PStr ''INC001'')])"

definition ticket_step :: WorkflowStep where
  "ticket_step = new_WorkflowStep ''s1'' ''Create ServiceNow Ticket'' ''create_ticket'' ''servicenow'' []"

definition reboot_step :: WorkflowStep where
  "reboot_step = new_WorkflowStep ''s2'' ''Reboot'' ''reboot_server'' ''ssh'' []"

lemmas demo_defs = incident0_def new_WorkflowStep_def world0_def context0_def env_of_def flags_on_def
  stub_handlers_def env_down_def env_rejecting_def env_ok_def ticket_step_def reboot_step_def

definition workflow_of :: "WorkflowStep list \<Rightarrow> Workflow" where
  "workflow_of ss = \<lparr>wf_id = ''wf-1'', wf_incident_id = ''inc-1'',
     wf_name = ''Incident Response: API down'',
     wf_description = ''Automated response workflow for high incident'',
     steps = ss, current_step_index = 0, wf_status = ''pending'', created_at = 0,
     wf_started_at = None, wf_completed_at = None\<rparr>"

definition ok_result :: "string \<Rightarrow> pydict \<Rightarrow> ActionResult" where
  "ok_result a d = \<lparr>success = True, ar_action = a, tool = ''servicenow'', message = ''Created'',
     data = Some d, ar_error = None, timestamp = 0\<rparr>"

definition flags_off :: AppConfig where
  "flags_off = \<lparr>features = \<lparr>auto_ticketing = False, slack_notifications = True, confluence_docs = True, github_analysis = True\<rparr>, github_org = ''acme''\<rparr>"

definition context_with_ticket :: Context where
  "context_with_ticket = context0\<lparr>incident := incident0\<lparr>servicenow_ticket_id := PStr ''INC0000007''\<rparr>\<rparr>"

definition member_of :: "string \<Rightarrow> string \<Rightarrow> bool \<Rightarrow> string list \<Rightarrow> TeamMember" where
  "member_of uid n oc sk = \<lparr>tm_id = uid, tm_name = n, email = n @ ''@test.com'',
     slack_user_id = None, github_username = None, teams = [], skills = sk, on_call = oc\<rparr>"

definition alice :: TeamMember where
  "alice = member_of ''1'' ''alice'' True [''python'']"

definition bob :: TeamMember where
  "bob = member_of ''2'' ''bob'' False [''postgresql'', ''dba'']"

definition carol :: TeamMember where
  "carol = member_of ''3'' ''carol'' False [''frontend'']"

definition planner_of :: "(Incident \<Rightarrow> string \<Rightarrow> string + string) \<Rightarrow> planner" where
  "planner_of g =
     \<lparr>generate_text = g,
      str_strip = (\<lambda>s. rev (dropWhile (\<lambda>ch. ch = CHR '' '') (rev (dropWhile (\<lambda>ch. ch = CHR '' '') s)))),
      json_loads = (\<lambda>s. Inl ''Expecting value: line 1 column 1 (char 0)''),
      validate_str = (\<lambda>v. case v of PStr s \<Rightarrow> Inr s | _ \<Rightarrow> Inl ''Input should be a valid string''),
      validate_dict = (\<lambda>v. case v of PDict d \<Rightarrow> Inr d | _ \<Rightarrow> Inl ''Input should be a valid dictionary''),
      uuid4 = (\<lambda>k. ''step-'' @ replicate k (CHR ''i''))\<rparr>"

definition planner_down :: planner where
  "planner_down = planner_of (\<lambda>i ts. Inl ''watsonx unavailable'')"

definition planner_garbled :: planner where
  "planner_garbled = planner_of (\<lambda>i ts. Inr ''Sure, here is a plan'')"

definition planner_answering :: "pyval \<Rightarrow> planner" where
  "planner_answering v =
     (planner_of (\<lambda>i ts. Inr '' [...] ''))
       \<lparr>json_loads := (\<lambda>s. if s = ''[...]'' then Inr v
                             else Inl ''Expecting value: line 1 column 1 (char 0)'')\<rparr>"

definition incident1 :: Incident where
  "incident1 = incident0\<lparr>inc_id := ''inc-2'', severity := LOW\<rparr>"

definition incident2 :: Incident where
  "incident2 = incident0\<lparr>inc_id := ''inc-3'', severity := LOW\<rparr>"

definition env_github_down :: env where
  "env_github_down = env_of (\<lambda>h c. case c of
       GithubAnalyzeRecentCommits repo hb paths \<Rightarrow> Inl ''github unreachable''
     | _ \<Rightarrow> Inr [(''success'', PBool True), (''number'', PStr ''INC001''),
                 (''channel_id'', PStr ''C42'')])"

definition plain_stage :: "Incident \<Rightarrow> world \<Rightarrow> stage_outcome" where
  "plain_stage i w = (Inr [(''status'', PStr ''completed'')], i, w)"

definition stages_third_raising :: stage_functions where
  "stages_third_raising =
     \<lparr>stage1 = plain_stage, stage2 = plain_stage,
      stage3 = (\<lambda>i rs w. (Inl ''stage three broke'', i, w)),
      stage4 = (\<lambda>i d. plain_stage i), stage5 = plain_stage,
      stage6 = (\<lambda>i tm. plain_stage i), stage7 = plain_stage\<rparr>"

section \<open>Properties of the step dispatcher\<close>

text \<open>
  Claim C1.  \<open>_execute_step\<close> always returns a result, never an exception; and when the
  handler registered for the step's action raises an exception with text \<open>e\<close>, the result
  is a failed \<open>ActionResult\<close> whose error field is \<open>e\<close>.  What the handler changed before it
  raised remains.
\<close>

theorem execute_step_catches_handler_faults:
  "(\<exists>r. fst (execute_step hs s c w) = Inr r) \<and>
   (\<forall>h e c1 w1.
      hs (action s) = Some h \<and>
      h (s\<lparr>status := ''running'', started_at := Some (clock w)\<rparr>) c w = (Inl e, c1, w1) \<longrightarrow>
      execute_step hs s c w =
        (Inr \<lparr>success = False, ar_action = action s, tool = target_tool s,
              message = ''Action failed: '' @ e, data = None, ar_error = Some e,
              timestamp = clock w1\<rparr>,
         s\<lparr>status := ''running'', started_at := Some (clock w)\<rparr>, c1, w1))"
  by (auto simp: execute_step_def Let_def split: option.splits prod.splits sum.splits)

theorem execute_step_catches_witness:
  "execute_step (action_handlers env_down flags_on stub_handlers) ticket_step context0 world0 =
     (Inr \<lparr>success = False, ar_action = ''create_ticket'', tool = ''servicenow'',
           message = ''Action failed: connection refused'', data = None,
           ar_error = Some ''connection refused'', timestamp = 1\<rparr>,
      ticket_step\<lparr>status := ''running'', started_at := Some 0\<rparr>, context0,
      \<lparr>calls = [ServiceNowCreateIncident incident0], clock = 1\<rparr>)"
  using execute_step_catches_handler_faults
    [of "action_handlers env_down flags_on stub_handlers" ticket_step context0 world0]
  by (simp add: demo_defs action_handlers_def handle_create_ticket_def invoke_def)

text \<open>
  Claim C4.  For a step whose action identifier has no entry in the table of handlers,
  \<open>_execute_step\<close> returns a failed \<open>ActionResult\<close> with the error text
  \<open>No handler registered for action\<close>; the context (and the incident in it) and the world
  are as before, so no collaborator has been called.
\<close>

theorem unknown_action_fails_fast:
  "hs (action s) = None \<Longrightarrow>
     execute_step hs s c w =
       (Inr \<lparr>success = False, ar_action = action s, tool = target_tool s,
             message = ''Unknown action: '' @ action s, data = None,
             ar_error = Some ''No handler registered for action'', timestamp = clock w\<rparr>,
        s\<lparr>status := ''running'', started_at := Some (clock w)\<rparr>, c, w)"
  by (simp add: execute_step_def)

theorem unknown_action_witness:
  "action_handlers env_ok flags_on stub_handlers (action reboot_step) = None \<and>
   fst (snd (snd (execute_step (action_handlers env_ok flags_on stub_handlers) reboot_step context0 world0))) = context0 \<and>
   calls (snd (snd (snd (execute_step (action_handlers env_ok flags_on stub_handlers) reboot_step context0 world0)))) = []"
proof -
  have h: "action_handlers env_ok flags_on stub_handlers (action reboot_step) = None"
    by (simp add: action_handlers_def reboot_step_def new_WorkflowStep_def)
  show ?thesis
    using h unknown_action_fails_fast
      [of "action_handlers env_ok flags_on stub_handlers" reboot_step context0 world0]
    by (simp add: world0_def)
qed

lemma execute_step_returns: "\<exists>r s1 c1 w1. execute_step hs s c w = (Inr r, s1, c1, w1)"
  by (auto simp: execute_step_def Let_def split: option.splits prod.splits sum.splits)

lemma run_step_status:
  "status (fst (run_step hs s c w)) = ''completed'' \<or> status (fst (run_step hs s c w)) = ''failed''"
proof -
  obtain r s1 c1 w1 where "execute_step hs s c w = (Inr r, s1, c1, w1)"
    using execute_step_returns by blast
  then show ?thesis by (simp add: run_step_def Let_def)
qed

lemma run_steps_length: "length (fst (run_steps hs ss c w)) = length ss"
proof (induction ss arbitrary: c w)
  case Nil
  then show ?case by simp
next
  case (Cons s ss)
  obtain s' c1 w1 where a: "run_step hs s c w = (s', c1, w1)" by (cases "run_step hs s c w") auto
  obtain ss' c2 w2 where b: "run_steps hs ss c1 w1 = (ss', c2, w2)" by (cases "run_steps hs ss c1 w1") auto
  from Cons.IH [of c1 w1] a b show ?case by simp
qed

lemma run_steps_status:
  "x \<in> set (fst (run_steps hs ss c w)) \<Longrightarrow> status x = ''completed'' \<or> status x = ''failed''"
proof (induction ss arbitrary: c w)
  case Nil
  then show ?case by simp
next
  case (Cons s ss)
  obtain s' c1 w1 where a: "run_step hs s c w = (s', c1, w1)" by (cases "run_step hs s c w") auto
  obtain ss' c2 w2 where b: "run_steps hs ss c1 w1 = (ss', c2, w2)" by (cases "run_steps hs ss c1 w1") auto
  from Cons.prems a b have "x = s' \<or> x \<in> set ss'" by simp
  then show ?case
  proof
    assume "x = s'"
    with run_step_status [of hs s c w] a show ?thesis by simp
  next
    assume "x \<in> set ss'"
    with Cons.IH [of c1 w1] b show ?thesis by simp
  qed
qed

text \<open>
  Claim C2.  Whatever the handlers do, after \<open>_execute_workflow\<close> the workflow has the
  status \<open>completed\<close>, it has as many steps as before, and the status of every step is one
  of \<open>completed\<close>, \<open>failed\<close>, \<open>skipped\<close>, hence neither \<open>pending\<close> nor \<open>running\<close>.
\<close>

theorem workflow_always_completes:
  "wf_status (fst (execute_workflow hs wfl i tm w)) = ''completed'' \<and>
   length (steps (fst (execute_workflow hs wfl i tm w))) = length (steps wfl) \<and>
   (\<forall>x \<in> set (steps (fst (execute_workflow hs wfl i tm w))).
      status x \<in> {''completed'', ''failed'', ''skipped''} \<and>
      status x \<noteq> ''pending'' \<and> status x \<noteq> ''running'')"
proof -
  let ?c = "\<lparr>incident = i, team_members = (case tm of None \<Rightarrow> [] | Some ms \<Rightarrow> ms), results = Map.empty\<rparr>"
  obtain ss c1 w1 where r: "run_steps hs (steps wfl) ?c w = (ss, c1, w1)"
    by (cases "run_steps hs (steps wfl) ?c w") auto
  have st: "steps (fst (execute_workflow hs wfl i tm w)) = ss"
    using r by (simp add: execute_workflow_def Let_def)
  have "wf_status (fst (execute_workflow hs wfl i tm w)) = ''completed''"
    using r by (simp add: execute_workflow_def Let_def)
  moreover have "length ss = length (steps wfl)"
    using run_steps_length [of hs "steps wfl" ?c w] r by simp
  moreover have "\<forall>x \<in> set ss. status x \<in> {''completed'', ''failed'', ''skipped''} \<and>
      status x \<noteq> ''pending'' \<and> status x \<noteq> ''running''"
  proof
    fix x assume "x \<in> set ss"
    then have "status x = ''completed'' \<or> status x = ''failed''"
      using run_steps_status [of x hs "steps wfl" ?c w] r by simp
    then show "status x \<in> {''completed'', ''failed'', ''skipped''} \<and>
      status x \<noteq> ''pending'' \<and> status x \<noteq> ''running''" by auto
  qed
  ultimately show ?thesis using st by simp
qed

theorem workflow_always_completes_witness:
  "wf_status (fst (execute_workflow (action_handlers env_down flags_on stub_handlers)
      (workflow_of [ticket_step, reboot_step]) incident0 None world0)) = ''completed'' \<and>
   map status (steps (fst (execute_workflow (action_handlers env_down flags_on stub_handlers)
      (workflow_of [ticket_step, reboot_step]) incident0 None world0))) = [''failed'', ''failed'']"
  using workflow_always_completes
    [of "action_handlers env_down flags_on stub_handlers" "workflow_of [ticket_step, reboot_step]"
        incident0 None world0]
  by (simp add: demo_defs workflow_of_def execute_workflow_def run_step_def execute_step_def
      action_handlers_def handle_create_ticket_def invoke_def update_incident_from_result_def)

text \<open>
  Claim C9.  For a successful result, \<open>_update_incident_from_result\<close> writes the ticket id
  for \<open>create_ticket\<close>, the channel id for \<open>create_channel\<close>, the page id for
  \<open>create_postmortem\<close> and the hypothesis for \<open>generate_hypothesis\<close>, each from its key of the
  payload, and nothing else; for any other action the incident is unchanged.  In every case
  the fields other than these four are unchanged.
\<close>

theorem update_writes_whitelisted_fields_only:
  "success r \<longrightarrow>
     (action s = ''create_ticket'' \<longrightarrow>
        update_incident_from_result i s r =
          i\<lparr>servicenow_ticket_id := dict_get (case data r of None \<Rightarrow> [] | Some d \<Rightarrow> d) ''number''\<rparr>) \<and>
     (action s = ''create_channel'' \<longrightarrow>
        update_incident_from_result i s r =
          i\<lparr>slack_channel_id := dict_get (case data r of None \<Rightarrow> [] | Some d \<Rightarrow> d) ''channel_id''\<rparr>) \<and>
     (action s = ''create_postmortem'' \<longrightarrow>
        update_incident_from_result i s r =
          i\<lparr>confluence_page_id := dict_get (case data r of None \<Rightarrow> [] | Some d \<Rightarrow> d) ''page_id''\<rparr>) \<and>
     (action s = ''generate_hypothesis'' \<longrightarrow>
        update_incident_from_result i s r =
          i\<lparr>root_cause_hypothesis := dict_get (case data r of None \<Rightarrow> [] | Some d \<Rightarrow> d) ''hypothesis''\<rparr>) \<and>
     (action s \<notin> {''create_ticket'', ''create_channel'', ''create_postmortem'', ''generate_hypothesis''} \<longrightarrow>
        update_incident_from_result i s r = i) \<and>
     (update_incident_from_result i s r)
        \<lparr>servicenow_ticket_id := PNone, slack_channel_id := PNone,
         confluence_page_id := PNone, root_cause_hypothesis := PNone\<rparr> =
       i\<lparr>servicenow_ticket_id := PNone, slack_channel_id := PNone,
         confluence_page_id := PNone, root_cause_hypothesis := PNone\<rparr>"
  by (simp add: update_incident_from_result_def Let_def)

theorem update_writes_whitelisted_witness:
  "update_incident_from_result incident0 ticket_step (ok_result ''create_ticket'' [(''number'', PStr ''INC0012345'')]) =
     incident0\<lparr>servicenow_ticket_id := PStr ''INC0012345''\<rparr> \<and>
   update_incident_from_result incident0 reboot_step (ok_result ''reboot_server'' [(''number'', PStr ''INC0012345'')]) =
     incident0"
  using update_writes_whitelisted_fields_only
      [of "ok_result ''create_ticket'' [(''number'', PStr ''INC0012345'')]" ticket_step incident0]
    update_writes_whitelisted_fields_only
      [of "ok_result ''reboot_server'' [(''number'', PStr ''INC0012345'')]" reboot_step incident0]
  by (simp add: ok_result_def ticket_step_def reboot_step_def new_WorkflowStep_def dict_get_def)

lemma create_ticket_handler:
  "action_handlers E cfg H ''create_ticket'' = Some (handle_create_ticket E cfg)"
  by (simp add: action_handlers_def)

text \<open>
  Claim C8.  For a failed result \<open>_update_incident_from_result\<close> returns the incident as
  it was.  And when ticketing is enabled and the ticketing collaborator raises, or answers
  without a true \<open>success\<close>, the round of the dispatcher for a \<open>create_ticket\<close> step ends
  with the step failed and the incident unchanged, so an unset ticket id stays unset.
\<close>

theorem failed_result_leaves_incident:
  "(\<not> success r \<longrightarrow> update_incident_from_result i s r = i) \<and>
   (action s = ''create_ticket'' \<and> auto_ticketing (features cfg) \<and>
    (case respond E (calls w) (ServiceNowCreateIncident (incident c)) of
       Inl e \<Rightarrow> True | Inr res \<Rightarrow> \<not> truthy (dict_get res ''success''))
    \<longrightarrow> status (fst (run_step (action_handlers E cfg H) s c w)) = ''failed'' \<and>
        incident (fst (snd (run_step (action_handlers E cfg H) s c w))) = incident c)"
  by (auto simp: update_incident_from_result_def run_step_def execute_step_def
      create_ticket_handler handle_create_ticket_def invoke_def Let_def
      split: sum.splits prod.splits)

theorem failed_result_leaves_incident_witness:
  "servicenow_ticket_id (incident context0) = PNone \<and>
   status (fst (run_step (action_handlers env_rejecting flags_on stub_handlers) ticket_step context0 world0)) = ''failed'' \<and>
   servicenow_ticket_id (incident (fst (snd (run_step (action_handlers env_rejecting flags_on stub_handlers) ticket_step context0 world0)))) = PNone \<and>
   servicenow_ticket_id (incident (fst (snd (run_step (action_handlers env_down flags_on stub_handlers) ticket_step context0 world0)))) = PNone"
  using failed_result_leaves_incident
      [where s = ticket_step and cfg = flags_on and E = env_rejecting and w = world0
         and c = context0 and H = stub_handlers and i = incident0
         and r = "ok_result ''create_ticket'' []"]
    failed_result_leaves_incident
      [where s = ticket_step and cfg = flags_on and E = env_down and w = world0
         and c = context0 and H = stub_handlers and i = incident0
         and r = "ok_result ''create_ticket'' []"]
  by (simp add: demo_defs dict_get_def)

text \<open>
  Claim C10.  With the auto-ticketing flag off, a \<open>create_ticket\<close> step calls no
  collaborator (the world is unchanged) and gets a successful result with the payload
  \<open>{"skipped": True}\<close>; the step ends with status \<open>completed\<close>, not \<open>skipped\<close>, and the
  incident update sets the ticket id to \<open>None\<close>, whatever it was before.
\<close>

theorem disabled_ticketing_reports_success:
  "\<not> auto_ticketing (features cfg) \<and> action s = ''create_ticket'' \<longrightarrow>
     execute_step (action_handlers E cfg H) s c w =
       (Inr \<lparr>success = True, ar_action = ''create_ticket'', tool = ''servicenow'',
             message = ''Auto-ticketing disabled'', data = Some [(''skipped'', PBool True)],
             ar_error = None, timestamp = clock w\<rparr>,
        s\<lparr>status := ''running'', started_at := Some (clock w)\<rparr>, c, w) \<and>
     run_step (action_handlers E cfg H) s c w =
       (s\<lparr>status := ''completed'', result := Some [(''skipped'', PBool True)],
          started_at := Some (clock w), completed_at := Some (clock w)\<rparr>,
        c\<lparr>incident := (incident c)\<lparr>servicenow_ticket_id := PNone\<rparr>,
          results := (results c)(''create_ticket'' \<mapsto>
             \<lparr>success = True, ar_action = ''create_ticket'', tool = ''servicenow'',
              message = ''Auto-ticketing disabled'', data = Some [(''skipped'', PBool True)],
              ar_error = None, timestamp = clock w\<rparr>)\<rparr>,
        w)"
  by (auto simp: update_incident_from_result_def run_step_def execute_step_def
      create_ticket_handler handle_create_ticket_def Let_def dict_get_def)

theorem disabled_ticketing_witness:
  "servicenow_ticket_id (incident context_with_ticket) = PStr ''INC0000007'' \<and>
   status (fst (run_step (action_handlers env_ok flags_off stub_handlers) ticket_step context_with_ticket world0)) = ''completed'' \<and>
   servicenow_ticket_id (incident (fst (snd (run_step (action_handlers env_ok flags_off stub_handlers) ticket_step context_with_ticket world0)))) = PNone \<and>
   calls (snd (snd (run_step (action_handlers env_ok flags_off stub_handlers) ticket_step context_with_ticket world0))) = []"
  using disabled_ticketing_reports_success
      [where cfg = flags_off and s = ticket_step and E = env_ok and H = stub_handlers
         and c = context_with_ticket and w = world0]
  by (simp add: demo_defs flags_off_def context_with_ticket_def)

text \<open>
  Claim C5, evaluated.  A round of the dispatcher never writes the step's error text: the
  \<open>try\<close> block of \<open>_execute_workflow\<close> sets status, result and completion time only, and the
  \<open>except\<close> block, which does set it, is not reached because \<open>_execute_step\<close> returns a
  failed result instead of raising.  So after a run in which the ticketing collaborator
  answers \<open>{"success": False, "error": "HTTP 500"}\<close> the ticket step is \<open>failed\<close> and its
  error text is still \<open>None\<close>; the text \<open>HTTP 500\<close> is in the \<open>ActionResult\<close> kept in the
  context only.
\<close>

theorem failed_step_keeps_no_error_text:
  "error (fst (run_step hs s c w)) = error s \<and>
   map (\<lambda>x. (status x, error x))
     (steps (fst (execute_workflow (action_handlers env_rejecting flags_on H)
        (workflow_of [ticket_step]) incident0 None world0))) = [(''failed'', None)] \<and>
   results (fst (snd (run_step (action_handlers env_rejecting flags_on H) ticket_step context0 world0)))
     ''create_ticket'' =
     Some \<lparr>success = False, ar_action = ''create_ticket'', tool = ''servicenow'',
           message = ''Failed to create ticket'', data = None, ar_error = Some ''HTTP 500'',
           timestamp = 1\<rparr>"
proof -
  obtain r s1 c1 w1 where "execute_step hs s c w = (Inr r, s1, c1, w1)"
    using execute_step_returns by blast
  moreover from this have "error s1 = error s"
    by (auto simp: execute_step_def Let_def split: option.splits prod.splits sum.splits)
  ultimately have "error (fst (run_step hs s c w)) = error s"
    by (simp add: run_step_def Let_def)
  then show ?thesis
    by (simp add: demo_defs workflow_of_def execute_workflow_def run_step_def execute_step_def
      create_ticket_handler handle_create_ticket_def invoke_def update_incident_from_result_def
      dict_get_def)
qed

section \<open>Properties of the responder selector\<close>

lemma set_first_occurrences [simp]: "set (first_occurrences xs) = set xs"
  by (induction xs rule: first_occurrences.induct) auto

lemma distinct_first_occurrences [simp]: "distinct (first_occurrences xs)"
  by (induction xs rule: first_occurrences.induct) auto

lemma append_members_full: "5 \<le> length sel \<Longrightarrow> append_members ms sel = sel"
  by (induction ms) auto

lemma append_members_closed:
  "length sel \<le> 5 \<Longrightarrow>
   append_members ms sel = take 5 (sel @ first_occurrences (filter (\<lambda>m. m \<notin> set sel) ms))"
proof (induction ms arbitrary: sel)
  case Nil
  then show ?case by simp
next
  case (Cons m ms)
  show ?case
  proof (cases "m \<in> set sel")
    case True
    then show ?thesis using Cons by simp
  next
    case False
    show ?thesis
    proof (cases "length sel < 5")
      case True
      have f: "filter (\<lambda>y. y \<noteq> m) (filter (\<lambda>y. y \<notin> set sel) ms) =
               filter (\<lambda>y. y \<notin> set (sel @ [m])) ms"
        by (simp add: conj_commute)
      from True have "length (sel @ [m]) \<le> 5" by simp
      from Cons.IH [OF this] have
        "append_members ms (sel @ [m]) =
           take 5 (sel @ m # first_occurrences (filter (\<lambda>y. y \<notin> set (sel @ [m])) ms))"
        by simp
      with False True show ?thesis by (simp only: append_members.simps filter.simps first_occurrences.simps f if_True if_False simp_thms)
    next
      case False
      with Cons.prems have "length sel = 5" by simp
      then show ?thesis by (simp add: append_members_full)
    qed
  qed
qed

lemma append_members_append:
  "append_members (xs @ ys) sel = append_members ys (append_members xs sel)"
  by (induction xs arbitrary: sel) auto

lemma subseq_card: "subseq ys xs \<Longrightarrow> length ys + card (set xs - set ys) \<le> length xs"
proof (induction rule: list_emb.induct)
  case (list_emb_Nil ys)
  then show ?case by (simp add: card_length)
next
  case (list_emb_Cons xs ys y)
  have "set (y # ys) - set xs \<subseteq> insert y (set ys - set xs)" by auto
  then have "card (set (y # ys) - set xs) \<le> card (insert y (set ys - set xs))"
    by (intro card_mono) auto
  also have "\<dots> \<le> Suc (card (set ys - set xs))" by (simp add: card_insert_if)
  finally show ?case using list_emb_Cons.IH by simp
next
  case (list_emb_Cons2 x y xs ys)
  have "set (y # ys) - set (x # xs) \<subseteq> set ys - set xs" using list_emb_Cons2 by auto
  then have "card (set (y # ys) - set (x # xs)) \<le> card (set ys - set xs)"
    by (intro card_mono) auto
  then show ?case using list_emb_Cons2.IH by simp
qed

lemma select_closed_form:
  "select_relevant_team_members i roster =
     take 5 (take 2 (filter on_call roster) @
       first_occurrences (filter (\<lambda>m. m \<notin> set (take 2 (filter on_call roster)))
         (filter (\<lambda>m. list_ex (\<lambda>skill. skill \<in> set (skills m))
                    (category_skills (category_value (category i)))) roster @ roster)))"
proof -
  let ?on2 = "take 2 (filter on_call roster)"
  let ?sk = "filter (\<lambda>m. list_ex (\<lambda>skill. skill \<in> set (skills m))
                    (category_skills (category_value (category i)))) roster"
  have "select_relevant_team_members i roster = append_members (?sk @ roster) ?on2"
    by (simp add: select_relevant_team_members_def Let_def append_members_append)
  moreover have "length ?on2 \<le> 5" by simp
  ultimately show ?thesis using append_members_closed [of ?on2 "?sk @ roster"] by simp
qed

lemma select_length:
  "length (select_relevant_team_members i roster) \<le> min 5 (length roster)"
proof -
  let ?on2 = "take 2 (filter on_call roster)"
  let ?sk = "filter (\<lambda>m. list_ex (\<lambda>skill. skill \<in> set (skills m))
                    (category_skills (category_value (category i)))) roster"
  let ?rest = "first_occurrences (filter (\<lambda>m. m \<notin> set ?on2) (?sk @ roster))"
  have "subseq ?on2 roster"
    by (meson prefix_imp_subseq subseq_filter_left subseq_order.order_trans take_is_prefix)
  then have a: "length ?on2 + card (set roster - set ?on2) \<le> length roster"
    by (rule subseq_card)
  have "distinct ?rest" by (rule distinct_first_occurrences)
  then have "card (set ?rest) = length ?rest" by (rule distinct_card)
  moreover have "set ?rest = set roster - set ?on2" by auto
  ultimately have "length ?rest = card (set roster - set ?on2)" by simp
  then have b: "length (?on2 @ ?rest) \<le> length roster" using a by simp
  define l where "l = ?on2 @ ?rest"
  from b have "length l \<le> length roster" by (simp only: l_def)
  then have "length (take 5 l) \<le> min 5 (length roster)" by simp
  then show ?thesis by (simp only: select_closed_form l_def)
qed

lemma select_distinct:
  "distinct (select_relevant_team_members i roster) = distinct (take 2 (filter on_call roster))"
proof -
  let ?on2 = "take 2 (filter on_call roster)"
  let ?sk = "filter (\<lambda>m. list_ex (\<lambda>skill. skill \<in> set (skills m))
                    (category_skills (category_value (category i)))) roster"
  let ?rest = "first_occurrences (filter (\<lambda>m. m \<notin> set ?on2) (?sk @ roster))"
  have d: "distinct (?on2 @ ?rest) = distinct ?on2" by auto
  have p: "take (length ?on2) (take 5 (?on2 @ ?rest)) = ?on2" by (simp add: min_def)
  show ?thesis
  proof
    assume "distinct (select_relevant_team_members i roster)"
    then have "distinct (take 5 (?on2 @ ?rest))" by (simp only: select_closed_form)
    then have "distinct (take (length ?on2) (take 5 (?on2 @ ?rest)))" by (rule distinct_take)
    then show "distinct ?on2" by (simp only: p)
  next
    assume "distinct ?on2"
    then have "distinct (?on2 @ ?rest)" by (simp only: d)
    then have "distinct (take 5 (?on2 @ ?rest))" by (rule distinct_take)
    then show "distinct (select_relevant_team_members i roster)" by (simp only: select_closed_form)
  qed
qed

text \<open>
  Claim C6 as stated fails for a roster in which the same member stands twice among the
  first two on-call entries: both entries are taken.
\<close>

theorem team_selection_counterexample:
  "select_relevant_team_members incident0 [alice, alice] = [alice, alice] \<and>
   \<not> distinct (select_relevant_team_members incident0 [alice, alice])"
  by (simp add: select_relevant_team_members_def Let_def incident0_def category_skills_def
      alice_def member_of_def)

text \<open>
  Claim C6, amended.  For every incident and roster the selection is the first two on-call
  entries of the roster, followed by the members not among them, each once in the order of
  first occurrence, of the skilled members in roster order and then of the whole roster,
  cut after five.  It has at most \<open>min(5, roster size)\<close> entries, all from the roster.  It
  is free of duplicates exactly when the first two on-call entries differ, in particular
  for every roster without duplicates.  Being a function, it is determined by its inputs.
\<close>

theorem team_selection:
  "select_relevant_team_members i roster =
     take 5 (take 2 (filter on_call roster) @
       first_occurrences (filter (\<lambda>m. m \<notin> set (take 2 (filter on_call roster)))
         (filter (\<lambda>m. list_ex (\<lambda>skill. skill \<in> set (skills m))
                    (category_skills (category_value (category i)))) roster @ roster))) \<and>
   length (select_relevant_team_members i roster) \<le> min 5 (length roster) \<and>
   set (select_relevant_team_members i roster) \<subseteq> set roster \<and>
   distinct (select_relevant_team_members i roster) = distinct (take 2 (filter on_call roster)) \<and>
   (distinct roster \<longrightarrow> distinct (select_relevant_team_members i roster))"
proof -
  have "set (select_relevant_team_members i roster) \<subseteq> set roster"
  proof
    fix x assume "x \<in> set (select_relevant_team_members i roster)"
    then have "x \<in> set (take 2 (filter on_call roster) @
       first_occurrences (filter (\<lambda>m. m \<notin> set (take 2 (filter on_call roster)))
         (filter (\<lambda>m. list_ex (\<lambda>skill. skill \<in> set (skills m))
                    (category_skills (category_value (category i)))) roster @ roster)))"
      unfolding select_closed_form by (rule in_set_takeD)
    then show "x \<in> set roster" by (auto dest: in_set_takeD)
  qed
  moreover have "distinct roster \<longrightarrow> distinct (select_relevant_team_members i roster)"
    by (simp add: select_distinct)
  ultimately show ?thesis
    using select_closed_form [of i roster] select_length [of i roster] select_distinct [of i roster]
    by blast
qed

theorem team_selection_witness:
  "distinct [carol, alice, bob] \<and>
   select_relevant_team_members incident0 [carol, alice, bob] = [alice, bob, carol] \<and>
   length (select_relevant_team_members incident0 [carol, alice, bob]) \<le> min 5 (length [carol, alice, bob]) \<and>
   distinct (select_relevant_team_members incident0 [carol, alice, bob])"
  using team_selection [of incident0 "[carol, alice, bob]"]
  by (simp add: select_relevant_team_members_def Let_def incident0_def category_skills_def
      alice_def bob_def carol_def member_of_def)

section \<open>Properties of the workflow builder\<close>

text \<open>
  Claim C3 as stated fails in its last part: two incidents of the same severity get
  fallback plans that differ, because three of the steps carry the incident's id as a
  parameter.
\<close>

theorem fallback_plan_counterexample:
  "severity incident1 = severity incident2 \<and>
   recommend_workflow_steps planner_down 0 incident1 [''ai''] \<noteq>
   recommend_workflow_steps planner_down 0 incident2 [''ai''] \<and>
   map parameters (recommend_workflow_steps planner_down 0 incident1 [''ai'']) =
     [[(''incident_id'', PStr ''inc-2'')], [(''incident_id'', PStr ''inc-2'')],
      [(''incident_id'', PStr ''inc-2'')]] \<and>
   map parameters (recommend_workflow_steps planner_down 0 incident2 [''ai'']) =
     [[(''incident_id'', PStr ''inc-3'')], [(''incident_id'', PStr ''inc-3'')],
      [(''incident_id'', PStr ''inc-3'')]]"
  by (simp add: recommend_workflow_steps_def get_default_workflow_steps_def Let_def
      new_WorkflowStep_def planner_down_def planner_of_def incident1_def incident2_def
      incident0_def)

text \<open>The fallback plan, written out for the two classes of severity.\<close>

lemma default_plan_high:
  "severity i = CRITICAL \<or> severity i = HIGH \<Longrightarrow>
   get_default_workflow_steps P k i =
     [new_WorkflowStep (uuid4 P k) ''Create ServiceNow Ticket'' ''create_ticket''
        ''servicenow'' [(''incident_id'', PStr (inc_id i))],
      new_WorkflowStep (uuid4 P (k + 1)) ''Create Incident Channel'' ''create_channel''
        ''slack'' [(''incident_id'', PStr (inc_id i))],
      new_WorkflowStep (uuid4 P (k + 2)) ''Notify Response Team'' ''notify_team''
        ''slack'' [(''urgency'', PStr ''high'')],
      new_WorkflowStep (uuid4 P (k + 3)) ''Analyze Recent Changes'' ''analyze_commits''
        ''github'' [(''hours_back'', PInt 24)],
      new_WorkflowStep (uuid4 P (k + 4)) ''Create Post-Mortem Template''
        ''create_postmortem'' ''confluence'' [(''incident_id'', PStr (inc_id i))]]"
  by (auto simp: get_default_workflow_steps_def Let_def eval_nat_numeral)

lemma default_plan_low:
  "severity i = MEDIUM \<or> severity i = LOW \<Longrightarrow>
   get_default_workflow_steps P k i =
     [new_WorkflowStep (uuid4 P k) ''Create ServiceNow Ticket'' ''create_ticket''
        ''servicenow'' [(''incident_id'', PStr (inc_id i))],
      new_WorkflowStep (uuid4 P (k + 1)) ''Create Incident Channel'' ''create_channel''
        ''slack'' [(''incident_id'', PStr (inc_id i))],
      new_WorkflowStep (uuid4 P (k + 2)) ''Create Post-Mortem Template''
        ''create_postmortem'' ''confluence'' [(''incident_id'', PStr (inc_id i))]]"
  by (auto simp: get_default_workflow_steps_def Let_def)


text \<open>
  Claim C3, amended.  \<open>recommend_workflow_steps\<close> returns the fallback plan of
  \<open>_get_default_workflow_steps\<close> whenever building a plan from the provider's answer raises:
  when the provider raises, when \<open>json.loads\<close> rejects the stripped answer, when the parsed
  answer cannot be iterated, and when an element of it cannot be made into a
  \<open>WorkflowStep\<close> (the identifiers drawn for the steps made before that are then used up).
  In the one remaining case it returns the steps made from the answer.  The fallback plan
  has the actions ticket, channel, post-mortem for medium and low severity and ticket,
  channel, team notification, commit analysis, post-mortem for critical and high; the
  ticket, channel and post-mortem steps carry the incident's id as their parameter, the
  other two carry fixed parameters; the identifiers are those drawn from \<open>uuid4\<close>, in
  order.  Two fallback plans for the same severity agree in every field of their steps
  other than the identifier and the parameters.  Two fallback plans are identical exactly
  when the severities are both critical or high or both medium or low, the incidents' ids
  are equal, and the identifiers drawn are equal.
\<close>

theorem fallback_plan:
  "(\<forall>e. generate_text P i (py_join '', '' tools) = Inl e \<longrightarrow>
      recommend_workflow_steps P k i tools = get_default_workflow_steps P k i) \<and>
   (\<forall>r e. generate_text P i (py_join '', '' tools) = Inr r \<and>
      json_loads P (str_strip P r) = Inl e \<longrightarrow>
      recommend_workflow_steps P k i tools = get_default_workflow_steps P k i) \<and>
   (\<forall>r v e. generate_text P i (py_join '', '' tools) = Inr r \<and>
      json_loads P (str_strip P r) = Inr v \<and> py_iter v = Inl e \<longrightarrow>
      recommend_workflow_steps P k i tools = get_default_workflow_steps P k i) \<and>
   (\<forall>r v items e k'. generate_text P i (py_join '', '' tools) = Inr r \<and>
      json_loads P (str_strip P r) = Inr v \<and> py_iter v = Inr items \<and>
      steps_of_data P k items = (Inl e, k') \<longrightarrow>
      recommend_workflow_steps P k i tools = get_default_workflow_steps P k' i) \<and>
   (\<forall>r v items ss k'. generate_text P i (py_join '', '' tools) = Inr r \<and>
      json_loads P (str_strip P r) = Inr v \<and> py_iter v = Inr items \<and>
      steps_of_data P k items = (Inr ss, k') \<longrightarrow>
      recommend_workflow_steps P k i tools = ss) \<and>
   map action (get_default_workflow_steps P k i) =
     (if severity i = CRITICAL \<or> severity i = HIGH
      then [''create_ticket'', ''create_channel'', ''notify_team'', ''analyze_commits'',
            ''create_postmortem'']
      else [''create_ticket'', ''create_channel'', ''create_postmortem'']) \<and>
   map parameters (get_default_workflow_steps P k i) =
     (if severity i = CRITICAL \<or> severity i = HIGH
      then [[(''incident_id'', PStr (inc_id i))], [(''incident_id'', PStr (inc_id i))],
            [(''urgency'', PStr ''high'')], [(''hours_back'', PInt 24)],
            [(''incident_id'', PStr (inc_id i))]]
      else [[(''incident_id'', PStr (inc_id i))], [(''incident_id'', PStr (inc_id i))],
            [(''incident_id'', PStr (inc_id i))]]) \<and>
   map step_id (get_default_workflow_steps P k i) =
     (if severity i = CRITICAL \<or> severity i = HIGH
      then [uuid4 P k, uuid4 P (k + 1), uuid4 P (k + 2), uuid4 P (k + 3), uuid4 P (k + 4)]
      else [uuid4 P k, uuid4 P (k + 1), uuid4 P (k + 2)]) \<and>
   (severity i = severity j \<longrightarrow>
      map (\<lambda>s. s\<lparr>step_id := [], parameters := []\<rparr>) (get_default_workflow_steps P k i) =
      map (\<lambda>s. s\<lparr>step_id := [], parameters := []\<rparr>) (get_default_workflow_steps P' k' j)) \<and>
   ((get_default_workflow_steps P k i = get_default_workflow_steps P' k' j) =
      ((severity i = CRITICAL \<or> severity i = HIGH) =
         (severity j = CRITICAL \<or> severity j = HIGH) \<and>
       inc_id i = inc_id j \<and>
       map step_id (get_default_workflow_steps P k i) =
       map step_id (get_default_workflow_steps P' k' j)))"
proof -
  have a: "(\<forall>e. generate_text P i (py_join '', '' tools) = Inl e \<longrightarrow>
      recommend_workflow_steps P k i tools = get_default_workflow_steps P k i) \<and>
   (\<forall>r e. generate_text P i (py_join '', '' tools) = Inr r \<and>
      json_loads P (str_strip P r) = Inl e \<longrightarrow>
      recommend_workflow_steps P k i tools = get_default_workflow_steps P k i) \<and>
   (\<forall>r v e. generate_text P i (py_join '', '' tools) = Inr r \<and>
      json_loads P (str_strip P r) = Inr v \<and> py_iter v = Inl e \<longrightarrow>
      recommend_workflow_steps P k i tools = get_default_workflow_steps P k i) \<and>
   (\<forall>r v items e k'. generate_text P i (py_join '', '' tools) = Inr r \<and>
      json_loads P (str_strip P r) = Inr v \<and> py_iter v = Inr items \<and>
      steps_of_data P k items = (Inl e, k') \<longrightarrow>
      recommend_workflow_steps P k i tools = get_default_workflow_steps P k' i) \<and>
   (\<forall>r v items ss k'. generate_text P i (py_join '', '' tools) = Inr r \<and>
      json_loads P (str_strip P r) = Inr v \<and> py_iter v = Inr items \<and>
      steps_of_data P k items = (Inr ss, k') \<longrightarrow>
      recommend_workflow_steps P k i tools = ss)"
    by (simp add: recommend_workflow_steps_def Let_def)
  have b: "map action (get_default_workflow_steps P k i) =
     (if severity i = CRITICAL \<or> severity i = HIGH
      then [''create_ticket'', ''create_channel'', ''notify_team'', ''analyze_commits'',
            ''create_postmortem'']
      else [''create_ticket'', ''create_channel'', ''create_postmortem''])"
    by (cases "severity i")
      (simp_all add: default_plan_high default_plan_low new_WorkflowStep_def)
  have c: "map parameters (get_default_workflow_steps P k i) =
     (if severity i = CRITICAL \<or> severity i = HIGH
      then [[(''incident_id'', PStr (inc_id i))], [(''incident_id'', PStr (inc_id i))],
            [(''urgency'', PStr ''high'')], [(''hours_back'', PInt 24)],
            [(''incident_id'', PStr (inc_id i))]]
      else [[(''incident_id'', PStr (inc_id i))], [(''incident_id'', PStr (inc_id i))],
            [(''incident_id'', PStr (inc_id i))]])"
    by (cases "severity i")
      (simp_all add: default_plan_high default_plan_low new_WorkflowStep_def)
  have d: "map step_id (get_default_workflow_steps P k i) =
     (if severity i = CRITICAL \<or> severity i = HIGH
      then [uuid4 P k, uuid4 P (k + 1), uuid4 P (k + 2), uuid4 P (k + 3), uuid4 P (k + 4)]
      else [uuid4 P k, uuid4 P (k + 1), uuid4 P (k + 2)])"
    by (cases "severity i")
      (simp_all add: default_plan_high default_plan_low new_WorkflowStep_def)
  have e: "severity i = severity j \<longrightarrow>
      map (\<lambda>s. s\<lparr>step_id := [], parameters := []\<rparr>) (get_default_workflow_steps P k i) =
      map (\<lambda>s. s\<lparr>step_id := [], parameters := []\<rparr>) (get_default_workflow_steps P' k' j)"
    by (cases "severity j")
      (simp_all add: default_plan_high default_plan_low new_WorkflowStep_def)
  have f: "(get_default_workflow_steps P k i = get_default_workflow_steps P' k' j) =
      ((severity i = CRITICAL \<or> severity i = HIGH) =
         (severity j = CRITICAL \<or> severity j = HIGH) \<and>
       inc_id i = inc_id j \<and>
       map step_id (get_default_workflow_steps P k i) =
       map step_id (get_default_workflow_steps P' k' j))"
    by (cases "severity i"; cases "severity j")
      (auto simp: default_plan_high default_plan_low new_WorkflowStep_def)
  from a b c d e f show ?thesis by (intro conjI) blast+
qed

theorem fallback_plan_witness:
  "recommend_workflow_steps planner_down 0 incident0 [''slack'', ''ai''] =
     get_default_workflow_steps planner_down 0 incident0 \<and>
   recommend_workflow_steps planner_garbled 0 incident1 [''slack'', ''ai''] =
     get_default_workflow_steps planner_garbled 0 incident1 \<and>
   recommend_workflow_steps (planner_answering (PInt 42)) 0 incident1 [''slack'', ''ai''] =
     get_default_workflow_steps (planner_answering (PInt 42)) 0 incident1 \<and>
   recommend_workflow_steps
     (planner_answering (PList [PDict [(''name'', PStr ''Page'')], PInt 1])) 0 incident1
     [''slack'', ''ai''] =
     get_default_workflow_steps
       (planner_answering (PList [PDict [(''name'', PStr ''Page'')], PInt 1])) 1 incident1 \<and>
   recommend_workflow_steps
     (planner_answering (PList [PDict [(''name'', PStr ''Page'')]])) 0 incident1
     [''slack'', ''ai''] =
     [new_WorkflowStep ''step-'' ''Page'' ''unknown'' ''unknown'' []] \<and>
   map action (get_default_workflow_steps planner_down 0 incident0) =
     [''create_ticket'', ''create_channel'', ''notify_team'', ''analyze_commits'',
      ''create_postmortem''] \<and>
   map parameters (get_default_workflow_steps planner_down 0 incident1) =
     [[(''incident_id'', PStr ''inc-2'')], [(''incident_id'', PStr ''inc-2'')],
      [(''incident_id'', PStr ''inc-2'')]] \<and>
   map step_id (get_default_workflow_steps planner_down 1 incident1) =
     [''step-i'', ''step-ii'', ''step-iii''] \<and>
   map (\<lambda>s. s\<lparr>step_id := [], parameters := []\<rparr>)
     (get_default_workflow_steps planner_down 0 incident1) =
   map (\<lambda>s. s\<lparr>step_id := [], parameters := []\<rparr>)
     (get_default_workflow_steps planner_garbled 7 incident2) \<and>
   get_default_workflow_steps planner_down 0 incident1 \<noteq>
   get_default_workflow_steps planner_down 0 incident2"
proof -
  let ?tools = "[''slack'', ''ai'']"
  let ?bad = "planner_answering (PList [PDict [(''name'', PStr ''Page'')], PInt 1])"
  let ?good = "planner_answering (PList [PDict [(''name'', PStr ''Page'')]])"
  have c1: "recommend_workflow_steps planner_down 0 incident0 ?tools =
     get_default_workflow_steps planner_down 0 incident0"
    using fallback_plan [where P = planner_down and i = incident0 and tools = ?tools
        and k = 0, THEN conjunct1]
    by (simp add: planner_down_def planner_of_def)
  have c2: "recommend_workflow_steps planner_garbled 0 incident1 ?tools =
     get_default_workflow_steps planner_garbled 0 incident1"
    using fallback_plan [where P = planner_garbled and i = incident1 and tools = ?tools
        and k = 0, THEN conjunct2, THEN conjunct1]
    by (simp add: planner_garbled_def planner_of_def)
  have c3: "recommend_workflow_steps (planner_answering (PInt 42)) 0 incident1 ?tools =
     get_default_workflow_steps (planner_answering (PInt 42)) 0 incident1"
    using fallback_plan [where P = "planner_answering (PInt 42)" and i = incident1
        and tools = ?tools and k = 0, THEN conjunct2, THEN conjunct2, THEN conjunct1]
    by (simp add: planner_answering_def planner_of_def)
  have c4: "recommend_workflow_steps ?bad 0 incident1 ?tools =
     get_default_workflow_steps ?bad 1 incident1"
    using fallback_plan [where P = ?bad and i = incident1 and tools = ?tools and k = 0,
        THEN conjunct2, THEN conjunct2, THEN conjunct2, THEN conjunct1]
    by (simp add: planner_answering_def planner_of_def step_of_data_def dict_get_or_def)
  have c5: "recommend_workflow_steps ?good 0 incident1 ?tools =
     [new_WorkflowStep ''step-'' ''Page'' ''unknown'' ''unknown'' []]"
    using fallback_plan [where P = ?good and i = incident1 and tools = ?tools and k = 0,
        THEN conjunct2, THEN conjunct2, THEN conjunct2, THEN conjunct2, THEN conjunct1]
    by (simp add: planner_answering_def planner_of_def step_of_data_def dict_get_or_def)
  have c6: "map action (get_default_workflow_steps planner_down 0 incident0) =
     [''create_ticket'', ''create_channel'', ''notify_team'', ''analyze_commits'',
      ''create_postmortem'']"
    using fallback_plan [where P = planner_down and i = incident0 and k = 0,
        THEN conjunct2, THEN conjunct2, THEN conjunct2, THEN conjunct2, THEN conjunct2,
        THEN conjunct1]
    by (simp add: incident0_def)
  have c7: "map parameters (get_default_workflow_steps planner_down 0 incident1) =
     [[(''incident_id'', PStr ''inc-2'')], [(''incident_id'', PStr ''inc-2'')],
      [(''incident_id'', PStr ''inc-2'')]]"
    using fallback_plan [where P = planner_down and i = incident1 and k = 0,
        THEN conjunct2, THEN conjunct2, THEN conjunct2, THEN conjunct2, THEN conjunct2,
        THEN conjunct2, THEN conjunct1]
    by (simp add: incident1_def)
  have c8: "map step_id (get_default_workflow_steps planner_down 1 incident1) =
     [''step-i'', ''step-ii'', ''step-iii'']"
    using fallback_plan [where P = planner_down and i = incident1 and k = 1,
        THEN conjunct2, THEN conjunct2, THEN conjunct2, THEN conjunct2, THEN conjunct2,
        THEN conjunct2, THEN conjunct2, THEN conjunct1]
    by (simp add: incident1_def planner_down_def planner_of_def eval_nat_numeral)
  have c9: "map (\<lambda>s. s\<lparr>step_id := [], parameters := []\<rparr>)
     (get_default_workflow_steps planner_down 0 incident1) =
   map (\<lambda>s. s\<lparr>step_id := [], parameters := []\<rparr>)
     (get_default_workflow_steps planner_garbled 7 incident2)"
    using fallback_plan [where P = planner_down and i = incident1 and k = 0
        and j = incident2 and P' = planner_garbled and k' = 7,
        THEN conjunct2, THEN conjunct2, THEN conjunct2, THEN conjunct2, THEN conjunct2,
        THEN conjunct2, THEN conjunct2, THEN conjunct2, THEN conjunct1]
    by (simp add: incident1_def incident2_def)
  have c10: "get_default_workflow_steps planner_down 0 incident1 \<noteq>
   get_default_workflow_steps planner_down 0 incident2"
    using fallback_plan [where P = planner_down and i = incident1 and k = 0
        and j = incident2 and P' = planner_down and k' = 0,
        THEN conjunct2, THEN conjunct2, THEN conjunct2, THEN conjunct2, THEN conjunct2,
        THEN conjunct2, THEN conjunct2, THEN conjunct2, THEN conjunct2]
    by (simp add: incident1_def incident2_def)
  from c1 c2 c3 c4 c5 c6 c7 c8 c9 c10 show ?thesis by (intro conjI)
qed

section \<open>Properties of the fixed playbook\<close>

lemma dict_get_set_same [simp]: "dict_get (dict_set d k v) k = v"
  by (simp add: dict_get_def dict_set_def update_conv')

lemma dict_get_set_other [simp]: "k' \<noteq> k \<Longrightarrow> dict_get (dict_set d k v) k' = dict_get d k'"
  by (simp add: dict_get_def dict_set_def update_conv')

lemma keys_dict_set:
  "map fst (dict_set d k v) = (if k \<in> set (map fst d) then map fst d else map fst d @ [k])"
  by (simp add: dict_set_def update_keys)

lemma run_stage_returns:
  "\<exists>r i1 w1. run_stage E n x body i w = (Inr r, i1, w1) \<and>
     (\<forall>e. fst (body \<lparr>st_incident = i,
                      st_result = [(''step'', PStr n), (''status'', PStr ''pending''),
                                   (''started_at'', PStr (isoformat E (clock w)))] @ x,
                      st_world = w\<rparr>) = Inl e \<longrightarrow>
          dict_get r ''status'' = PStr ''failed'' \<and> dict_get r ''error'' = PStr e)"
  by (auto simp: run_stage_def Let_def split: prod.splits sum.splits)

lemma call_stage_cases:
  "(\<exists>e i1 w1. f (run_incident st) (run_world st) = (Inl e, i1, w1) \<and>
      call_stage k f st = (Inl e, st\<lparr>run_incident := i1, run_world := w1\<rparr>)) \<or>
   (\<exists>r i1 w1. f (run_incident st) (run_world st) = (Inr r, i1, w1) \<and>
      call_stage k f st =
        (Inr r, st\<lparr>run_incident := i1, run_world := w1,
                   workflow_result :=
                     dict_set (workflow_result st) ''steps''
                       (PDict (dict_set (steps_of (workflow_result st)) k (PDict r)))\<rparr>))"
  by (cases "f (run_incident st) (run_world st)" rule: prod_cases3)
     (auto simp: call_stage_def split: sum.splits)

lemma call_stage_inv:
  assumes "run_inv ks st" and "k \<notin> set ks" and "call_stage k f st = (x, st')"
  shows "(\<exists>e. x = Inl e \<and> run_inv ks st' \<and> fst (f (run_incident st) (run_world st)) = Inl e) \<or>
         (\<exists>r. x = Inr r \<and> run_inv (ks @ [k]) st')"
  using call_stage_cases [of f st k] assms
  by (auto simp: run_inv_def steps_of_def keys_dict_set)

lemma bind_stage:
  assumes inv: "run_inv ks st" and fresh: "k \<notin> set ks"
    and raises: "\<And>e. fst (f (run_incident st) (run_world st)) = Inl e \<Longrightarrow> stage_raises S e"
    and pre: "strict_prefix ks stage_keys"
    and cont: "\<And>r st1. run_inv (ks @ [k]) st1 \<Longrightarrow> good_outcome S (g r st1)"
  shows "good_outcome S (p_bind (call_stage k f) g st)"
proof -
  obtain x st' where c: "call_stage k f st = (x, st')" by (cases "call_stage k f st") auto
  from call_stage_inv [OF inv fresh c]
  show ?thesis
  proof
    assume "\<exists>e. x = Inl e \<and> run_inv ks st' \<and> fst (f (run_incident st) (run_world st)) = Inl e"
    then obtain e where e: "x = Inl e" "run_inv ks st'"
      "fst (f (run_incident st) (run_world st)) = Inl e" by blast
    from raises [OF e(3)] e(1,2) pre c show ?thesis
      by (auto simp: good_outcome_def p_bind_def)
  next
    assume "\<exists>r. x = Inr r \<and> run_inv (ks @ [k]) st'"
    then obtain r where r: "x = Inr r" "run_inv (ks @ [k]) st'" by blast
    from cont [OF r(2), of r] r(1) c show ?thesis by (simp add: p_bind_def)
  qed
qed

lemma workflow_body_outcome:
  assumes "run_inv [] st0"
  shows "good_outcome S (workflow_body S E rs tm st0)"
  unfolding workflow_body_def
  apply (rule bind_stage [OF assms])
     apply simp
    apply (force simp: stage_raises_def)
   apply (simp add: stage_keys_def)
  apply (rule bind_stage, assumption)
     apply simp
    apply (force simp: stage_raises_def)
   apply (simp add: stage_keys_def)
  apply (rule bind_stage, assumption)
     apply simp
    apply (force simp: stage_raises_def)
   apply (simp add: stage_keys_def)
  apply (rule bind_stage, assumption)
     apply simp
    apply (force simp: stage_raises_def)
   apply (simp add: stage_keys_def)
  apply (rule bind_stage, assumption)
     apply simp
    apply (force simp: stage_raises_def)
   apply (simp add: stage_keys_def)
  apply (rule bind_stage, assumption)
     apply simp
    apply (force simp: stage_raises_def)
   apply (simp add: stage_keys_def)
  apply (rule bind_stage, assumption)
     apply simp
    apply (force simp: stage_raises_def)
   apply (simp add: stage_keys_def)
  apply (simp add: good_outcome_def run_inv_def stage_keys_def steps_of_def)
  done

lemma execute_workflow_with_outcome:
  "(dict_get (fst (execute_workflow_with S E i rs tm w)) ''success'' = PBool True \<and>
    dict_get (fst (execute_workflow_with S E i rs tm w)) ''errors'' = PList [] \<and>
    map fst (steps_of (fst (execute_workflow_with S E i rs tm w))) = stage_keys) \<or>
   (dict_get (fst (execute_workflow_with S E i rs tm w)) ''success'' = PBool False \<and>
    (\<exists>e. dict_get (fst (execute_workflow_with S E i rs tm w)) ''errors'' = PList [PStr e] \<and>
         stage_raises S e) \<and>
    strict_prefix (map fst (steps_of (fst (execute_workflow_with S E i rs tm w)))) stage_keys)"
proof -
  let ?st0 = "\<lparr>run_incident = i,
      workflow_result = [(''incident_id'', PStr (inc_id i)),
             (''workflow_name'', PStr ''Incident Response Workflow''),
             (''started_at'', PStr (isoformat E (clock w))),
             (''steps'', PDict []),
             (''success'', PBool True),
             (''errors'', PList [])], run_world = w\<rparr>"
  have "run_inv [] ?st0" by (simp add: run_inv_def steps_of_def dict_get_def)
  then have g: "good_outcome S (workflow_body S E rs tm ?st0)" by (rule workflow_body_outcome)
  obtain x st where b: "workflow_body S E rs tm ?st0 = (x, st)"
    by (cases "workflow_body S E rs tm ?st0") auto
  show ?thesis
  proof (cases x)
    case (Inl e)
    with g b obtain ks where "run_inv ks st" "strict_prefix ks stage_keys" "stage_raises S e"
      by (auto simp: good_outcome_def)
    with Inl b show ?thesis
      by (auto simp: execute_workflow_with_def Let_def run_inv_def steps_of_def errors_of_def)
  next
    case (Inr u)
    with g b have "run_inv stage_keys st" by (simp add: good_outcome_def)
    with Inr b show ?thesis
      by (simp add: execute_workflow_with_def Let_def run_inv_def)
  qed
qed

lemma playbook_stages_never_raise: "\<not> stage_raises (playbook_stages E cfg) e"
proof -
  have a: "\<And>n x body i w. fst (run_stage E n x body i w) \<noteq> Inl e"
    using run_stage_returns by (metis fst_conv sum.distinct(1))
  show ?thesis
    by (simp add: stage_raises_def playbook_stages_def a
        step1_create_servicenow_ticket_def step2_send_slack_alert_def
        step3_gather_diagnostics_def step4_analyze_root_cause_def
        step5_create_confluence_page_def step6_assign_and_notify_def
        step7_monitor_and_update_def)
qed

lemma p_bind_raise: "fst (m st) = Inl e \<Longrightarrow> fst (p_bind m f st) = Inl e"
  by (cases "m st") (auto simp: p_bind_def)

lemma gather_commits_raise:
  assumes "\<And>h repo hb paths. respond E h (GithubAnalyzeRecentCommits repo hb paths) = Inl e"
  shows "fst (gather_commits E hb (repo # repos) acc st) = Inl e"
proof -
  have "fst (st_call E (\<lambda>i. GithubAnalyzeRecentCommits repo hb (affected_services i)) st) = Inl e"
    by (simp add: st_call_def invoke_def assms)
  then show ?thesis by (simp only: gather_commits.simps p_bind_raise)
qed

lemma step3_code_host_down:
  assumes "\<And>h repo hb paths. respond E h (GithubAnalyzeRecentCommits repo hb paths) = Inl e"
  shows "\<exists>r i1 w1. step3_gather_diagnostics E cfg i rs w = (Inr r, i1, w1) \<and>
           dict_get r ''status'' = PStr ''failed'' \<and> dict_get r ''error'' = PStr e"
proof -
  let ?repos = "(case rs of None \<Rightarrow> [github_org cfg @ ''/main-app'']
                 | Some l \<Rightarrow> if l = [] then [github_org cfg @ ''/main-app''] else l)"
  obtain repo repos where r: "?repos = repo # repos"
    by (cases ?repos) (auto split: option.splits if_splits)
  have "\<And>st. fst (step3_body E cfg rs st) = Inl e"
    unfolding step3_body_def Let_def st_with_incident_def r
    by (rule p_bind_raise) (rule gather_commits_raise [OF assms])
  then show ?thesis
    unfolding step3_gather_diagnostics_def
    using run_stage_returns [of E "''Gather Diagnostic Information''" "[(''diagnostics'', PDict [])]"
        "step3_body E cfg rs" i w]
    by blast
qed

lemma run_stage_closed:
  "run_stage E n x body i w =
     (case body \<lparr>st_incident = i,
                 st_result = [(''step'', PStr n), (''status'', PStr ''pending''),
                              (''started_at'', PStr (isoformat E (clock w)))] @ x,
                 st_world = w\<rparr> of
        (Inr u, st) \<Rightarrow>
          (Inr (dict_set (st_result st) ''completed_at''
                  (PStr (isoformat E (clock (st_world st))))),
           st_incident st, st_world st)
      | (Inl e, st) \<Rightarrow>
          (Inr (dict_set (dict_set (dict_set (st_result st) ''status'' (PStr ''failed''))
                            ''error'' (PStr e))
                  ''completed_at'' (PStr (isoformat E (clock (st_world st))))),
           st_incident st, st_world st))"
  by (simp add: run_stage_def Let_def split: prod.splits sum.splits)

lemma execute_workflow_with_closed:
  "execute_workflow_with S E i rs tm w =
     (let overall = (\<lambda>recs ok errs.
            [(''incident_id'', PStr (inc_id i)),
             (''workflow_name'', PStr ''Incident Response Workflow''),
             (''started_at'', PStr (isoformat E (clock w))),
             (''steps'', PDict recs), (''success'', PBool ok), (''errors'', PList errs)])
      in case stage1 S i w of
           (Inl e, i1, w1) \<Rightarrow> (overall [] False [PStr e], i1, w1)
         | (Inr r1, i1, w1) \<Rightarrow>
      (case stage2 S i1 w1 of
           (Inl e, i2, w2) \<Rightarrow>
             (overall [(''1_create_servicenow_ticket'', PDict r1)] False [PStr e], i2, w2)
         | (Inr r2, i2, w2) \<Rightarrow>
      (case stage3 S i2 rs w2 of
           (Inl e, i3, w3) \<Rightarrow>
             (overall [(''1_create_servicenow_ticket'', PDict r1),
                       (''2_send_slack_alert'', PDict r2)] False [PStr e], i3, w3)
         | (Inr r3, i3, w3) \<Rightarrow>
      (case stage4 S i3 r3 w3 of
           (Inl e, i4, w4) \<Rightarrow>
             (overall [(''1_create_servicenow_ticket'', PDict r1),
                       (''2_send_slack_alert'', PDict r2),
                       (''3_gather_diagnostics'', PDict r3)] False [PStr e], i4, w4)
         | (Inr r4, i4, w4) \<Rightarrow>
      (case stage5 S i4 w4 of
           (Inl e, i5, w5) \<Rightarrow>
             (overall [(''1_create_servicenow_ticket'', PDict r1),
                       (''2_send_slack_alert'', PDict r2),
                       (''3_gather_diagnostics'', PDict r3),
                       (''4_analyze_root_cause'', PDict r4)] False [PStr e], i5, w5)
         | (Inr r5, i5, w5) \<Rightarrow>
      (case stage6 S i5 tm w5 of
           (Inl e, i6, w6) \<Rightarrow>
             (overall [(''1_create_servicenow_ticket'', PDict r1),
                       (''2_send_slack_alert'', PDict r2),
                       (''3_gather_diagnostics'', PDict r3),
                       (''4_analyze_root_cause'', PDict r4),
                       (''5_create_confluence_page'', PDict r5)] False [PStr e], i6, w6)
         | (Inr r6, i6, w6) \<Rightarrow>
      (case stage7 S i6 w6 of
           (Inl e, i7, w7) \<Rightarrow>
             (overall [(''1_create_servicenow_ticket'', PDict r1),
                       (''2_send_slack_alert'', PDict r2),
                       (''3_gather_diagnostics'', PDict r3),
                       (''4_analyze_root_cause'', PDict r4),
                       (''5_create_confluence_page'', PDict r5),
                       (''6_assign_and_notify'', PDict r6)] False [PStr e], i7, w7)
         | (Inr r7, i7, w7) \<Rightarrow>
             (overall [(''1_create_servicenow_ticket'', PDict r1),
                       (''2_send_slack_alert'', PDict r2),
                       (''3_gather_diagnostics'', PDict r3),
                       (''4_analyze_root_cause'', PDict r4),
                       (''5_create_confluence_page'', PDict r5),
                       (''6_assign_and_notify'', PDict r6),
                       (''7_monitor_and_update'', PDict r7)] True [] @
              [(''completed_at'', PStr (isoformat E (clock w7)))], i7, w7))))))))"
  by (simp add: execute_workflow_with_def workflow_body_def call_stage_def p_bind_def
      Let_def steps_of_def errors_of_def dict_get_def dict_set_def
      split: prod.splits sum.splits)


lemma stage_functions_return:
  "\<exists>r i1 w1. step1_create_servicenow_ticket E i w = (Inr r, i1, w1)"
  "\<exists>r i1 w1. step2_send_slack_alert E i w = (Inr r, i1, w1)"
  "\<exists>r i1 w1. step3_gather_diagnostics E cfg i rs w = (Inr r, i1, w1)"
  "\<exists>r i1 w1. step4_analyze_root_cause E i d w = (Inr r, i1, w1)"
  "\<exists>r i1 w1. step5_create_confluence_page E i w = (Inr r, i1, w1)"
  "\<exists>r i1 w1. step6_assign_and_notify E i tm w = (Inr r, i1, w1)"
  "\<exists>r i1 w1. step7_monitor_and_update E i w = (Inr r, i1, w1)"
  unfolding step1_create_servicenow_ticket_def step2_send_slack_alert_def
    step3_gather_diagnostics_def step4_analyze_root_cause_def
    step5_create_confluence_page_def step6_assign_and_notify_def
    step7_monitor_and_update_def
  using run_stage_returns by blast+

lemma playbook_chain:
  "\<exists>r1 i1 w1 r2 i2 w2 r3 i3 w3 r4 i4 w4 r5 i5 w5 r6 i6 w6 r7 i7 w7.
      step1_create_servicenow_ticket E i w = (Inr r1, i1, w1) \<and>
      step2_send_slack_alert E i1 w1 = (Inr r2, i2, w2) \<and>
      step3_gather_diagnostics E cfg i2 rs w2 = (Inr r3, i3, w3) \<and>
      step4_analyze_root_cause E i3 r3 w3 = (Inr r4, i4, w4) \<and>
      step5_create_confluence_page E i4 w4 = (Inr r5, i5, w5) \<and>
      step6_assign_and_notify E i5 tm w5 = (Inr r6, i6, w6) \<and>
      step7_monitor_and_update E i6 w6 = (Inr r7, i7, w7) \<and>
      playbook_execute_workflow E cfg i rs tm w =
        ([(''incident_id'', PStr (inc_id i)),
          (''workflow_name'', PStr ''Incident Response Workflow''),
          (''started_at'', PStr (isoformat E (clock w))),
          (''steps'', PDict [(''1_create_servicenow_ticket'', PDict r1),
                            (''2_send_slack_alert'', PDict r2),
                            (''3_gather_diagnostics'', PDict r3),
                            (''4_analyze_root_cause'', PDict r4),
                            (''5_create_confluence_page'', PDict r5),
                            (''6_assign_and_notify'', PDict r6),
                            (''7_monitor_and_update'', PDict r7)]),
          (''success'', PBool True), (''errors'', PList []),
          (''completed_at'', PStr (isoformat E (clock w7)))], i7, w7) \<and>
      ((\<forall>h repo hb paths. respond E h (GithubAnalyzeRecentCommits repo hb paths) = Inl e) \<longrightarrow>
         dict_get r3 ''status'' = PStr ''failed'' \<and> dict_get r3 ''error'' = PStr e)"
proof -
  obtain r1 i1 w1 where s1: "step1_create_servicenow_ticket E i w = (Inr r1, i1, w1)"
    using stage_functions_return(1) by blast
  obtain r2 i2 w2 where s2: "step2_send_slack_alert E i1 w1 = (Inr r2, i2, w2)"
    using stage_functions_return(2) by blast
  obtain r3 i3 w3 where s3: "step3_gather_diagnostics E cfg i2 rs w2 = (Inr r3, i3, w3)"
    using stage_functions_return(3) by blast
  obtain r4 i4 w4 where s4: "step4_analyze_root_cause E i3 r3 w3 = (Inr r4, i4, w4)"
    using stage_functions_return(4) by blast
  obtain r5 i5 w5 where s5: "step5_create_confluence_page E i4 w4 = (Inr r5, i5, w5)"
    using stage_functions_return(5) by blast
  obtain r6 i6 w6 where s6: "step6_assign_and_notify E i5 tm w5 = (Inr r6, i6, w6)"
    using stage_functions_return(6) by blast
  obtain r7 i7 w7 where s7: "step7_monitor_and_update E i6 w6 = (Inr r7, i7, w7)"
    using stage_functions_return(7) by blast
  have p: "playbook_execute_workflow E cfg i rs tm w =
        ([(''incident_id'', PStr (inc_id i)),
          (''workflow_name'', PStr ''Incident Response Workflow''),
          (''started_at'', PStr (isoformat E (clock w))),
          (''steps'', PDict [(''1_create_servicenow_ticket'', PDict r1),
                            (''2_send_slack_alert'', PDict r2),
                            (''3_gather_diagnostics'', PDict r3),
                            (''4_analyze_root_cause'', PDict r4),
                            (''5_create_confluence_page'', PDict r5),
                            (''6_assign_and_notify'', PDict r6),
                            (''7_monitor_and_update'', PDict r7)]),
          (''success'', PBool True), (''errors'', PList []),
          (''completed_at'', PStr (isoformat E (clock w7)))], i7, w7)"
    unfolding playbook_execute_workflow_def execute_workflow_with_closed
    by (simp add: playbook_stages_def s1 s2 s3 s4 s5 s6 s7)
  have f: "(\<forall>h repo hb paths. respond E h (GithubAnalyzeRecentCommits repo hb paths) = Inl e) \<longrightarrow>
         dict_get r3 ''status'' = PStr ''failed'' \<and> dict_get r3 ''error'' = PStr e"
    using step3_code_host_down [of E e cfg i2 rs w2] s3 by auto
  show ?thesis by (intro exI conjI) (rule s1 s2 s3 s4 s5 s6 s7 p f)+
qed

text \<open>
  Claim C7.  A stage function never raises.  It returns the record its body has built,
  with the completion time set, together with the incident and the collaborators' state
  the body has left; when the body raises \<open>e\<close>, the record is the one built up to the
  fault with the status \<open>failed\<close> and the error text \<open>e\<close>.  The driver calls the seven
  stage functions in order, each on the incident and state the one before has left, the
  fourth on the record of the third, and stores each returned record under the key of its
  stage; when all seven return, the overall result holds the seven records, the success
  flag true, no errors and the completion time; when a stage function itself raises
  \<open>e\<close>, the overall result holds the records of the stages before it only, the success
  flag false and the error list \<open>[e]\<close>, and no later stage is called.  In the playbook
  itself no stage function raises, so every run returns the records of all seven stage
  functions with the flag true and no errors; when the code host fails with \<open>e\<close> on every
  request for recent commits, the record of the diagnostics stage in that overall result
  has the status \<open>failed\<close> and the error \<open>e\<close>, and the four later stages are run and
  recorded all the same.  For arbitrary stage functions the flag is false only with the
  text of an exception that a stage function raised.
\<close>

theorem playbook_fault_isolation:
  "run_stage E n x body i w =
     (case body \<lparr>st_incident = i,
                 st_result = [(''step'', PStr n), (''status'', PStr ''pending''),
                              (''started_at'', PStr (isoformat E (clock w)))] @ x,
                 st_world = w\<rparr> of
        (Inr u, st) \<Rightarrow>
          (Inr (dict_set (st_result st) ''completed_at''
                  (PStr (isoformat E (clock (st_world st))))),
           st_incident st, st_world st)
      | (Inl e, st) \<Rightarrow>
          (Inr (dict_set (dict_set (dict_set (st_result st) ''status'' (PStr ''failed''))
                            ''error'' (PStr e))
                  ''completed_at'' (PStr (isoformat E (clock (st_world st))))),
           st_incident st, st_world st)) \<and>
   (\<forall>e st. body \<lparr>st_incident = i,
                   st_result = [(''step'', PStr n), (''status'', PStr ''pending''),
                                (''started_at'', PStr (isoformat E (clock w)))] @ x,
                   st_world = w\<rparr> = (Inl e, st) \<longrightarrow>
      (\<exists>r. run_stage E n x body i w = (Inr r, st_incident st, st_world st) \<and>
           dict_get r ''status'' = PStr ''failed'' \<and> dict_get r ''error'' = PStr e)) \<and>
   execute_workflow_with S E i rs tm w =
     (let overall = (\<lambda>recs ok errs.
            [(''incident_id'', PStr (inc_id i)),
             (''workflow_name'', PStr ''Incident Response Workflow''),
             (''started_at'', PStr (isoformat E (clock w))),
             (''steps'', PDict recs), (''success'', PBool ok), (''errors'', PList errs)])
      in case stage1 S i w of
           (Inl e, i1, w1) \<Rightarrow> (overall [] False [PStr e], i1, w1)
         | (Inr r1, i1, w1) \<Rightarrow>
      (case stage2 S i1 w1 of
           (Inl e, i2, w2) \<Rightarrow>
             (overall [(''1_create_servicenow_ticket'', PDict r1)] False [PStr e], i2, w2)
         | (Inr r2, i2, w2) \<Rightarrow>
      (case stage3 S i2 rs w2 of
           (Inl e, i3, w3) \<Rightarrow>
             (overall [(''1_create_servicenow_ticket'', PDict r1),
                       (''2_send_slack_alert'', PDict r2)] False [PStr e], i3, w3)
         | (Inr r3, i3, w3) \<Rightarrow>
      (case stage4 S i3 r3 w3 of
           (Inl e, i4, w4) \<Rightarrow>
             (overall [(''1_create_servicenow_ticket'', PDict r1),
                       (''2_send_slack_alert'', PDict r2),
                       (''3_gather_diagnostics'', PDict r3)] False [PStr e], i4, w4)
         | (Inr r4, i4, w4) \<Rightarrow>
      (case stage5 S i4 w4 of
           (Inl e, i5, w5) \<Rightarrow>
             (overall [(''1_create_servicenow_ticket'', PDict r1),
                       (''2_send_slack_alert'', PDict r2),
                       (''3_gather_diagnostics'', PDict r3),
                       (''4_analyze_root_cause'', PDict r4)] False [PStr e], i5, w5)
         | (Inr r5, i5, w5) \<Rightarrow>
      (case stage6 S i5 tm w5 of
           (Inl e, i6, w6) \<Rightarrow>
             (overall [(''1_create_servicenow_ticket'', PDict r1),
                       (''2_send_slack_alert'', PDict r2),
                       (''3_gather_diagnostics'', PDict r3),
                       (''4_analyze_root_cause'', PDict r4),
                       (''5_create_confluence_page'', PDict r5)] False [PStr e], i6, w6)
         | (Inr r6, i6, w6) \<Rightarrow>
      (case stage7 S i6 w6 of
           (Inl e, i7, w7) \<Rightarrow>
             (overall [(''1_create_servicenow_ticket'', PDict r1),
                       (''2_send_slack_alert'', PDict r2),
                       (''3_gather_diagnostics'', PDict r3),
                       (''4_analyze_root_cause'', PDict r4),
                       (''5_create_confluence_page'', PDict r5),
                       (''6_assign_and_notify'', PDict r6)] False [PStr e], i7, w7)
         | (Inr r7, i7, w7) \<Rightarrow>
             (overall [(''1_create_servicenow_ticket'', PDict r1),
                       (''2_send_slack_alert'', PDict r2),
                       (''3_gather_diagnostics'', PDict r3),
                       (''4_analyze_root_cause'', PDict r4),
                       (''5_create_confluence_page'', PDict r5),
                       (''6_assign_and_notify'', PDict r6),
                       (''7_monitor_and_update'', PDict r7)] True [] @
              [(''completed_at'', PStr (isoformat E (clock w7)))], i7, w7)))))))) \<and>
   (\<exists>r1 i1 w1 r2 i2 w2 r3 i3 w3 r4 i4 w4 r5 i5 w5 r6 i6 w6 r7 i7 w7.
      step1_create_servicenow_ticket E i w = (Inr r1, i1, w1) \<and>
      step2_send_slack_alert E i1 w1 = (Inr r2, i2, w2) \<and>
      step3_gather_diagnostics E cfg i2 rs w2 = (Inr r3, i3, w3) \<and>
      step4_analyze_root_cause E i3 r3 w3 = (Inr r4, i4, w4) \<and>
      step5_create_confluence_page E i4 w4 = (Inr r5, i5, w5) \<and>
      step6_assign_and_notify E i5 tm w5 = (Inr r6, i6, w6) \<and>
      step7_monitor_and_update E i6 w6 = (Inr r7, i7, w7) \<and>
      playbook_execute_workflow E cfg i rs tm w =
        ([(''incident_id'', PStr (inc_id i)),
          (''workflow_name'', PStr ''Incident Response Workflow''),
          (''started_at'', PStr (isoformat E (clock w))),
          (''steps'', PDict [(''1_create_servicenow_ticket'', PDict r1),
                            (''2_send_slack_alert'', PDict r2),
                            (''3_gather_diagnostics'', PDict r3),
                            (''4_analyze_root_cause'', PDict r4),
                            (''5_create_confluence_page'', PDict r5),
                            (''6_assign_and_notify'', PDict r6),
                            (''7_monitor_and_update'', PDict r7)]),
          (''success'', PBool True), (''errors'', PList []),
          (''completed_at'', PStr (isoformat E (clock w7)))], i7, w7) \<and>
      ((\<forall>h repo hb paths. respond E h (GithubAnalyzeRecentCommits repo hb paths) = Inl e) \<longrightarrow>
         dict_get r3 ''status'' = PStr ''failed'' \<and> dict_get r3 ''error'' = PStr e)) \<and>
   \<not> stage_raises (playbook_stages E cfg) e' \<and>
   ((dict_get (fst (execute_workflow_with S E i rs tm w)) ''success'' = PBool True \<and>
     dict_get (fst (execute_workflow_with S E i rs tm w)) ''errors'' = PList [] \<and>
     map fst (steps_of (fst (execute_workflow_with S E i rs tm w))) = stage_keys) \<or>
    (dict_get (fst (execute_workflow_with S E i rs tm w)) ''success'' = PBool False \<and>
     (\<exists>e'. dict_get (fst (execute_workflow_with S E i rs tm w)) ''errors'' = PList [PStr e'] \<and>
           stage_raises S e') \<and>
     strict_prefix (map fst (steps_of (fst (execute_workflow_with S E i rs tm w)))) stage_keys))"
proof -
  have a: "\<exists>r. run_stage E n x body i w = (Inr r, st_incident st, st_world st) \<and>
           dict_get r ''status'' = PStr ''failed'' \<and> dict_get r ''error'' = PStr e"
    if "body \<lparr>st_incident = i,
                st_result = [(''step'', PStr n), (''status'', PStr ''pending''),
                             (''started_at'', PStr (isoformat E (clock w)))] @ x,
                st_world = w\<rparr> = (Inl e, st)" for e st
    using that by (simp add: run_stage_closed)
  show ?thesis
    apply (intro conjI allI impI)
         apply (rule run_stage_closed)
        apply (erule a)
       apply (rule execute_workflow_with_closed)
      apply (rule playbook_chain)
     apply (rule playbook_stages_never_raise)
    apply (rule execute_workflow_with_outcome)
    done
qed

theorem playbook_fault_isolation_witness:
  "run_stage env_ok ''Probe'' [] (p_lift (Inl ''boom'')) incident0 world0 =
     (Inr [(''step'', PStr ''Probe''), (''status'', PStr ''failed''),
           (''started_at'', PStr ''t''), (''error'', PStr ''boom''),
           (''completed_at'', PStr ''t'')], incident0, world0) \<and>
   (\<exists>r. run_stage env_ok ''Probe'' [] (p_lift (Inl ''boom'')) incident0 world0 =
          (Inr r, incident0, world0) \<and>
        dict_get r ''status'' = PStr ''failed'' \<and> dict_get r ''error'' = PStr ''boom'') \<and>
   execute_workflow_with stages_third_raising env_ok incident0 None None world0 =
     ([(''incident_id'', PStr ''inc-1''),
       (''workflow_name'', PStr ''Incident Response Workflow''),
       (''started_at'', PStr ''t''),
       (''steps'', PDict [(''1_create_servicenow_ticket'', PDict [(''status'', PStr ''completed'')]),
                         (''2_send_slack_alert'', PDict [(''status'', PStr ''completed'')])]),
       (''success'', PBool False), (''errors'', PList [PStr ''stage three broke''])],
      incident0, world0) \<and>
   (\<forall>h repo hb paths.
      respond env_github_down h (GithubAnalyzeRecentCommits repo hb paths) =
        Inl ''github unreachable'') \<and>
   (\<exists>r1 r2 r3 r4 r5 r6 r7 i7 w7.
      playbook_execute_workflow env_github_down flags_on incident0 None None world0 =
        ([(''incident_id'', PStr ''inc-1''),
          (''workflow_name'', PStr ''Incident Response Workflow''),
          (''started_at'', PStr ''t''),
          (''steps'', PDict [(''1_create_servicenow_ticket'', PDict r1),
                            (''2_send_slack_alert'', PDict r2),
                            (''3_gather_diagnostics'', PDict r3),
                            (''4_analyze_root_cause'', PDict r4),
                            (''5_create_confluence_page'', PDict r5),
                            (''6_assign_and_notify'', PDict r6),
                            (''7_monitor_and_update'', PDict r7)]),
          (''success'', PBool True), (''errors'', PList []),
          (''completed_at'', PStr ''t'')], i7, w7) \<and>
      dict_get r3 ''status'' = PStr ''failed'' \<and>
      dict_get r3 ''error'' = PStr ''github unreachable'')"
proof -
  have c1: "run_stage env_ok ''Probe'' [] (p_lift (Inl ''boom'')) incident0 world0 =
     (Inr [(''step'', PStr ''Probe''), (''status'', PStr ''failed''),
           (''started_at'', PStr ''t''), (''error'', PStr ''boom''),
           (''completed_at'', PStr ''t'')], incident0, world0)"
    using playbook_fault_isolation [where E = env_ok and n = "''Probe''" and x = "[]"
        and body = "p_lift (Inl ''boom'')" and i = incident0 and w = world0, THEN conjunct1]
    by (simp add: p_lift_def dict_set_def env_ok_def env_of_def world0_def)
  have c2: "\<exists>r. run_stage env_ok ''Probe'' [] (p_lift (Inl ''boom'')) incident0 world0 =
          (Inr r, incident0, world0) \<and>
        dict_get r ''status'' = PStr ''failed'' \<and> dict_get r ''error'' = PStr ''boom''"
    using playbook_fault_isolation [where E = env_ok and n = "''Probe''" and x = "[]"
        and body = "p_lift (Inl ''boom'')" and i = incident0 and w = world0,
        THEN conjunct2, THEN conjunct1]
    by (simp add: p_lift_def)
  have c3: "execute_workflow_with stages_third_raising env_ok incident0 None None world0 =
     ([(''incident_id'', PStr ''inc-1''),
       (''workflow_name'', PStr ''Incident Response Workflow''),
       (''started_at'', PStr ''t''),
       (''steps'', PDict [(''1_create_servicenow_ticket'', PDict [(''status'', PStr ''completed'')]),
                         (''2_send_slack_alert'', PDict [(''status'', PStr ''completed'')])]),
       (''success'', PBool False), (''errors'', PList [PStr ''stage three broke''])],
      incident0, world0)"
    using playbook_fault_isolation [where S = stages_third_raising and E = env_ok
        and i = incident0 and rs = None and tm = None and w = world0,
        THEN conjunct2, THEN conjunct2, THEN conjunct1]
    by (simp add: stages_third_raising_def plain_stage_def env_ok_def env_of_def
        incident0_def world0_def)
  have c4: "\<forall>h repo hb paths.
      respond env_github_down h (GithubAnalyzeRecentCommits repo hb paths) =
        Inl ''github unreachable''"
    by (simp add: env_github_down_def env_of_def)
  have t: "isoformat env_github_down = (\<lambda>t. ''t'')" "inc_id incident0 = ''inc-1''"
    by (simp_all add: env_github_down_def env_of_def incident0_def)
  have c5: "\<exists>r1 r2 r3 r4 r5 r6 r7 i7 w7.
      playbook_execute_workflow env_github_down flags_on incident0 None None world0 =
        ([(''incident_id'', PStr ''inc-1''),
          (''workflow_name'', PStr ''Incident Response Workflow''),
          (''started_at'', PStr ''t''),
          (''steps'', PDict [(''1_create_servicenow_ticket'', PDict r1),
                            (''2_send_slack_alert'', PDict r2),
                            (''3_gather_diagnostics'', PDict r3),
                            (''4_analyze_root_cause'', PDict r4),
                            (''5_create_confluence_page'', PDict r5),
                            (''6_assign_and_notify'', PDict r6),
                            (''7_monitor_and_update'', PDict r7)]),
          (''success'', PBool True), (''errors'', PList []),
          (''completed_at'', PStr ''t'')], i7, w7) \<and>
      dict_get r3 ''status'' = PStr ''failed'' \<and>
      dict_get r3 ''error'' = PStr ''github unreachable''"
    using playbook_fault_isolation [where E = env_github_down and cfg = flags_on
        and i = incident0 and rs = None and tm = None and w = world0
        and e = "''github unreachable''",
        THEN conjunct2, THEN conjunct2, THEN conjunct2, THEN conjunct1] c4
    unfolding t
    by (elim exE conjE impE) (assumption, blast)
  from c1 c2 c3 c4 c5 show ?thesis by (intro conjI)
qed

end
